theory Spec2Isabelle
  imports Main "HOL-Library.Word" "HOL-Library.Char_ord" "HOL-Library.List_Lexorder"
    "HOL-Library.Code_Target_Nat"
begin

unbundle bit_operations_syntax

section \<open>Go values the package works on\<close>

text \<open>
  A Go \<^verbatim>\<open>string\<close> and a \<^verbatim>\<open>[]byte\<close> are byte sequences: \<^typ>\<open>string\<close>.
  \<^verbatim>\<open>net.IP\<close> and \<^verbatim>\<open>net.IPMask\<close> are byte slices; the nil slice is the empty list
  (the code only ever takes their length and reads them by index).
  \<^verbatim>\<open>*net.IPNet\<close> is a pointer: \<open>None\<close> is nil.
\<close>

type_synonym byte = "8 word"
type_synonym IP = "byte list"
type_synonym IPMask = "byte list"

record IPNet =
  IP :: IP
  Mask :: IPMask

text \<open>
  What stops a call before it returns: the run-time panics the code can reach, and a
  \<^verbatim>\<open>Lock\<close> that waits because the mutex is held.
\<close>

datatype stop =
    nil_pointer_dereference
  | assignment_to_entry_in_nil_map
  | index_out_of_range
  | slice_bounds_out_of_range
  | unlock_of_unlocked_mutex
  | blocked

definition and_then :: "stop + 'a \<Rightarrow> ('a \<Rightarrow> stop + 'b) \<Rightarrow> stop + 'b" where
  "and_then r f = (case r of Inl e \<Rightarrow> Inl e | Inr x \<Rightarrow> f x)"

text \<open>An \<^verbatim>\<open>error\<close> value: \<^verbatim>\<open>errors.New(msg)\<close>, or the \<^verbatim>\<open>*net.ParseError\<close> of \<^verbatim>\<open>net.ParseCIDR\<close>.\<close>

datatype error = errors_New string | ParseError string string

subsection \<open>\<^verbatim>\<open>sync.Mutex\<close>\<close>

text \<open>
  A mutex is held or free. \<^verbatim>\<open>wl.lock\<close> is a \<^verbatim>\<open>*sync.Mutex\<close>: \<open>None\<close> is the nil pointer of
  a zero \<^verbatim>\<open>Basic{}\<close>. In this sequential model a call that finds the mutex held (by
  another goroutine) does not proceed: it is \<open>blocked\<close>.
\<close>

datatype Mutex = Mutex bool

definition Lock :: "Mutex option \<Rightarrow> stop + Mutex option" where
  "Lock m = (case m of
       None \<Rightarrow> Inl nil_pointer_dereference
     | Some (Mutex held) \<Rightarrow> if held then Inl blocked else Inr (Some (Mutex True)))"

definition Unlock :: "Mutex option \<Rightarrow> stop + Mutex option" where
  "Unlock m = (case m of
       None \<Rightarrow> Inl nil_pointer_dereference
     | Some (Mutex held) \<Rightarrow> if held then Inr (Some (Mutex False)) else Inl unlock_of_unlocked_mutex)"

section \<open>The standard library functions the package calls\<close>

subsection \<open>\<^verbatim>\<open>strings\<close> and \<^verbatim>\<open>sort\<close>\<close>

text \<open>\<^verbatim>\<open>strings.Join(elems, sep)\<close>.\<close>

fun Join :: "string list \<Rightarrow> string \<Rightarrow> string" where
  "Join [] sep = []"
| "Join [a] sep = a"
| "Join (a # b # r) sep = a @ sep @ Join (b # r) sep"

text \<open>
  \<^verbatim>\<open>strings.Split(s, sep)\<close> for a separator of one byte (the package splits at
  \<^verbatim>\<open>","\<close> and at \<^verbatim>\<open>"\n"\<close>): the pieces between the separators, so the empty string
  gives one empty piece.
\<close>

fun Split :: "string \<Rightarrow> char \<Rightarrow> string list" where
  "Split [] sep = [[]]"
| "Split (c # cs) sep =
     (if c = sep then [] # Split cs sep
      else (case Split cs sep of [] \<Rightarrow> [[c]] | t # ts \<Rightarrow> (c # t) # ts))"

text \<open>
  \<^verbatim>\<open>strings.TrimSpace\<close> removes the leading and the trailing white space, as
  \<^verbatim>\<open>unicode.IsSpace\<close> defines it on the UTF-8 decoding: the six ASCII characters, and
  the code points U+0085, U+00A0, U+1680, U+2000 to U+200A, U+2028, U+2029, U+202F,
  U+205F and U+3000, which are two or three bytes each.
\<close>

definition asciiSpace :: "char list" where
  "asciiSpace = [CHR 0x09, CHR 0x0A, CHR 0x0B, CHR 0x0C, CHR 0x0D, CHR 0x20]"

definition space2 :: "string list" where
  "space2 = [[CHR 0xC2, CHR 0x85], [CHR 0xC2, CHR 0xA0]]"

definition space3 :: "string list" where
  "space3 =
     [[CHR 0xE1, CHR 0x9A, CHR 0x80],
      [CHR 0xE2, CHR 0x80, CHR 0x80], [CHR 0xE2, CHR 0x80, CHR 0x81],
      [CHR 0xE2, CHR 0x80, CHR 0x82], [CHR 0xE2, CHR 0x80, CHR 0x83],
      [CHR 0xE2, CHR 0x80, CHR 0x84], [CHR 0xE2, CHR 0x80, CHR 0x85],
      [CHR 0xE2, CHR 0x80, CHR 0x86], [CHR 0xE2, CHR 0x80, CHR 0x87],
      [CHR 0xE2, CHR 0x80, CHR 0x88], [CHR 0xE2, CHR 0x80, CHR 0x89],
      [CHR 0xE2, CHR 0x80, CHR 0x8A],
      [CHR 0xE2, CHR 0x80, CHR 0xA8], [CHR 0xE2, CHR 0x80, CHR 0xA9],
      [CHR 0xE2, CHR 0x80, CHR 0xAF], [CHR 0xE2, CHR 0x81, CHR 0x9F],
      [CHR 0xE3, CHR 0x80, CHR 0x80]]"

text \<open>The width in bytes of the white-space character a string starts with (0: none).\<close>

definition leading_space :: "string \<Rightarrow> nat" where
  "leading_space s =
     (if s = [] then 0
      else if List.member asciiSpace (hd s) then 1
      else if List.member space2 (take 2 s) then 2
      else if List.member space3 (take 3 s) then 3
      else 0)"

text \<open>The same at the end of the string.\<close>

definition trailing_space :: "string \<Rightarrow> nat" where
  "trailing_space s =
     (if s = [] then 0
      else if List.member asciiSpace (last s) then 1
      else if List.member space2 (drop (length s - 2) s) then 2
      else if List.member space3 (drop (length s - 3) s) then 3
      else 0)"

function TrimLeft :: "string \<Rightarrow> string" where
  "TrimLeft s = (if leading_space s = 0 then s else TrimLeft (drop (leading_space s) s))"
  by pat_completeness auto
termination
  by (relation "measure length") (auto simp: leading_space_def split: if_splits)

declare TrimLeft.simps [simp del]

function TrimRight :: "string \<Rightarrow> string" where
  "TrimRight s =
     (if trailing_space s = 0 then s else TrimRight (take (length s - trailing_space s) s))"
  by pat_completeness auto
termination
  by (relation "measure length") (auto simp: trailing_space_def split: if_splits)

declare TrimRight.simps [simp del]

definition TrimSpace :: "string \<Rightarrow> string" where
  "TrimSpace s = TrimRight (TrimLeft s)"

text \<open>\<^verbatim>\<open>sort.Strings\<close>: ascending, bytes compared as unsigned numbers.\<close>

definition sort_Strings :: "string list \<Rightarrow> string list" where
  "sort_Strings ss = sort ss"

subsection \<open>\<^verbatim>\<open>net.IP\<close>\<close>

definition isZeros :: "IP \<Rightarrow> bool" where
  "isZeros p = list_all (\<lambda>b. b = 0) p"

definition allFF :: "byte list \<Rightarrow> bool" where
  "allFF b = list_all (\<lambda>c. c = 0xff) b"

definition v4InV6Prefix :: "byte list" where
  "v4InV6Prefix = [0, 0, 0, 0, 0, 0, 0, 0, 0, 0, 0xff, 0xff]"

definition IPv4 :: "byte \<Rightarrow> byte \<Rightarrow> byte \<Rightarrow> byte \<Rightarrow> IP" where
  "IPv4 a b c d = v4InV6Prefix @ [a, b, c, d]"

text \<open>\<^verbatim>\<open>ip.To4()\<close>: the 4-byte form of an IPv4 address, nil for anything else.\<close>

definition To4 :: "IP \<Rightarrow> IP" where
  "To4 ip =
     (if length ip = 4 then ip
      else if length ip = 16 \<and> isZeros (take 10 ip) \<and> ip ! 10 = 0xff \<and> ip ! 11 = 0xff
        then drop 12 ip
      else [])"

definition hexDigit :: string where
  "hexDigit = ''0123456789abcdef''"

text \<open>\<^verbatim>\<open>uitoa\<close>: an unsigned number in decimal.\<close>

fun uitoa :: "nat \<Rightarrow> string" where
  "uitoa val =
     (if val < 10 then [char_of (48 + val)]
      else uitoa (val div 10) @ [char_of (48 + val mod 10)])"

declare uitoa.simps [simp del]

text \<open>\<^verbatim>\<open>appendHex\<close>: a number below \<open>2 ^ 32\<close> in hexadecimal, without leading zeros.\<close>

definition appendHex :: "string \<Rightarrow> nat \<Rightarrow> string" where
  "appendHex dst i =
     (if i = 0 then dst @ ''0''
      else dst @ concat (map (\<lambda>j. if i div 16 ^ j > 0 then [hexDigit ! (i div 16 ^ j mod 16)] else [])
                          [7, 6, 5, 4, 3, 2, 1, 0]))"

definition hexString :: "byte list \<Rightarrow> string" where
  "hexString b = concat (map (\<lambda>tn. [hexDigit ! (unat tn div 16), hexDigit ! (unat tn mod 16)]) b)"

text \<open>
  The search of \<^verbatim>\<open>IP.String\<close> for the longest run of zero 16-bit groups, by byte
  position: \<open>scan_zeros\<close> is the inner loop, \<open>longest_zeros\<close> the outer one; \<open>(e0, e1)\<close>
  starts as \<open>(-1, -1)\<close>.
\<close>

function scan_zeros :: "IP \<Rightarrow> nat \<Rightarrow> nat" where
  "scan_zeros p j =
     (if j < 16 \<and> p ! j = 0 \<and> p ! (j + 1) = 0 then scan_zeros p (j + 2) else j)"
  by pat_completeness auto
termination
  by (relation "measure (\<lambda>(p, j). 16 - j)") auto

declare scan_zeros.simps [simp del]

function longest_zeros :: "IP \<Rightarrow> nat \<Rightarrow> int \<times> int \<Rightarrow> int \<times> int" where
  "longest_zeros p i (e0, e1) =
     (if i < 16 then
        (let j = scan_zeros p i in
         if j > i \<and> int j - int i > e1 - e0 then longest_zeros p (j + 2) (int i, int j)
         else longest_zeros p (i + 2) (e0, e1))
      else (e0, e1))"
  by pat_completeness auto
termination
  by (relation "measure (\<lambda>(p, i, e). 16 - i)") auto

declare longest_zeros.simps [simp del]

definition group16 :: "IP \<Rightarrow> nat \<Rightarrow> nat" where
  "group16 p k = unat (p ! (2 * k)) * 256 + unat (p ! (2 * k + 1))"

text \<open>
  \<^verbatim>\<open>ip.String()\<close>: \<^verbatim>\<open><nil>\<close> for the empty slice, dotted decimal for an IPv4 address in
  either form, \<^verbatim>\<open>?\<close> and the bytes in hexadecimal for any other length that is not
  16, and for a 16-byte address the eight groups in hexadecimal, the first longest run of
  two or more zero groups written \<^verbatim>\<open>::\<close>.
\<close>

definition IP_String :: "IP \<Rightarrow> string" where
  "IP_String ip =
     (if length ip = 0 then ''<nil>''
      else if length (To4 ip) = 4 then
        (let p4 = To4 ip in
         uitoa (unat (p4 ! 0)) @ ''.'' @ uitoa (unat (p4 ! 1)) @ ''.'' @
         uitoa (unat (p4 ! 2)) @ ''.'' @ uitoa (unat (p4 ! 3)))
      else if length ip \<noteq> 16 then ''?'' @ hexString ip
      else
        (case longest_zeros ip 0 (- 1, - 1) of (e0, e1) \<Rightarrow>
           (let groups = map (\<lambda>k. appendHex [] (group16 ip k)) [0, 1, 2, 3, 4, 5, 6, 7] in
            if e1 - e0 \<le> 2 then Join groups '':''
            else Join (take (nat e0 div 2) groups) '':'' @ ''::'' @
                 Join (drop (nat e1 div 2) groups) '':'')))"

subsection \<open>\<^verbatim>\<open>net.ParseIP\<close>\<close>

definition big :: nat where
  "big = 0xFFFFFF"

text \<open>
  \<^verbatim>\<open>dtoi\<close> and \<^verbatim>\<open>xtoi\<close>: the decimal, or hexadecimal, number a string starts with, the
  count of characters read, and whether there was a number below \<open>big\<close>.
\<close>

fun dtoi_loop :: "string \<Rightarrow> nat \<Rightarrow> nat \<Rightarrow> nat \<times> nat \<times> bool" where
  "dtoi_loop [] n i = (if i = 0 then (0, 0, False) else (n, i, True))"
| "dtoi_loop (c # cs) n i =
     (if CHR ''0'' \<le> c \<and> c \<le> CHR ''9'' then
        (if n * 10 + (of_char c - 48) \<ge> big then (big, i, False)
         else dtoi_loop cs (n * 10 + (of_char c - 48)) (i + 1))
      else if i = 0 then (0, 0, False) else (n, i, True))"

definition dtoi :: "string \<Rightarrow> nat \<times> nat \<times> bool" where
  "dtoi s = dtoi_loop s 0 0"

definition hex_value :: "char \<Rightarrow> nat option" where
  "hex_value c =
     (if CHR ''0'' \<le> c \<and> c \<le> CHR ''9'' then Some (of_char c - 48)
      else if CHR ''a'' \<le> c \<and> c \<le> CHR ''f'' then Some (of_char c - 97 + 10)
      else if CHR ''A'' \<le> c \<and> c \<le> CHR ''F'' then Some (of_char c - 65 + 10)
      else None)"

fun xtoi_loop :: "string \<Rightarrow> nat \<Rightarrow> nat \<Rightarrow> nat \<times> nat \<times> bool" where
  "xtoi_loop [] n i = (if i = 0 then (0, i, False) else (n, i, True))"
| "xtoi_loop (c # cs) n i =
     (case hex_value c of
        Some d \<Rightarrow> (if n * 16 + d \<ge> big then (0, i, False) else xtoi_loop cs (n * 16 + d) (i + 1))
      | None \<Rightarrow> if i = 0 then (0, i, False) else (n, i, True))"

definition xtoi :: "string \<Rightarrow> nat \<times> nat \<times> bool" where
  "xtoi s = xtoi_loop s 0 0"

text \<open>
  \<^verbatim>\<open>parseIPv4\<close>: four decimal numbers up to 255 with dots between them, none with a
  leading zero and nothing after them; \<open>i\<close> counts the numbers read and \<open>p\<close> holds them.
  The result is the 16-byte form, or nil.
\<close>

function parseIPv4_loop :: "nat \<Rightarrow> string \<Rightarrow> byte list \<Rightarrow> IP" where
  "parseIPv4_loop i s p =
     (if i < 4 then
        (if s = [] then []
         else if i > 0 \<and> hd s \<noteq> CHR ''.'' then []
         else
           (let s1 = (if i > 0 then tl s else s) in
            case dtoi s1 of (n, c, ok) \<Rightarrow>
              if \<not> ok then []
              else if n > 0xFF then []
              else if c > 1 \<and> hd s1 = CHR ''0'' then []
              else parseIPv4_loop (i + 1) (drop c s1) (p @ [of_nat n])))
      else if s \<noteq> [] then []
      else IPv4 (p ! 0) (p ! 1) (p ! 2) (p ! 3))"
  by pat_completeness auto
termination
  by (relation "measure (\<lambda>(i, s, p). 4 - i)") auto

declare parseIPv4_loop.simps [simp del]

definition parseIPv4 :: "string \<Rightarrow> IP" where
  "parseIPv4 s = parseIPv4_loop 0 s []"

text \<open>
  The loop of \<^verbatim>\<open>parseIPv6\<close>: \<open>ip\<close> holds the bytes read so far (the loop's \<^verbatim>\<open>i\<close> is
  its length), \<open>ellipsis\<close> the position of \<^verbatim>\<open>::\<close> or \<open>-1\<close>. \<open>None\<close> is the nil result;
  otherwise the bytes, the ellipsis and the rest of the string when the loop ends.
\<close>

function parseIPv6_loop :: "byte list \<Rightarrow> int \<Rightarrow> string \<Rightarrow> (byte list \<times> int \<times> string) option" where
  "parseIPv6_loop ip ellipsis s =
     (if length ip < 16 then
        (case xtoi s of (n, c, ok) \<Rightarrow>
           if \<not> ok then None
           else if n > 0xFFFF then None
           else if c < length s \<and> s ! c = CHR ''.'' then
             (if ellipsis < 0 \<and> length ip \<noteq> 12 then None
              else if length ip + 4 > 16 then None
              else if parseIPv4 s = [] then None
              else Some (ip @ drop 12 (parseIPv4 s), ellipsis, []))
           else
             (let ip1 = ip @ [of_nat (n div 256), of_nat n]; s1 = drop c s in
              if s1 = [] then Some (ip1, ellipsis, s1)
              else if hd s1 \<noteq> CHR '':'' then None
              else if length s1 = 1 then None
              else
                (let s2 = tl s1 in
                 if hd s2 = CHR '':'' then
                   (if ellipsis \<ge> 0 then None
                    else if tl s2 = [] then Some (ip1, int (length ip1), [])
                    else parseIPv6_loop ip1 (int (length ip1)) (tl s2))
                 else parseIPv6_loop ip1 ellipsis s2)))
      else Some (ip, ellipsis, s))"
  by pat_completeness auto
termination
  by (relation "measure (\<lambda>(ip, e, s). 16 - length ip)") auto

declare parseIPv6_loop.simps [simp del]

definition parseIPv6 :: "string \<Rightarrow> IP" where
  "parseIPv6 s =
     (let lead = (length s \<ge> 2 \<and> s ! 0 = CHR '':'' \<and> s ! 1 = CHR '':'') in
      if lead \<and> drop 2 s = [] then replicate 16 0
      else
        (case parseIPv6_loop [] (if lead then 0 else - 1) (if lead then drop 2 s else s) of
           None \<Rightarrow> []
         | Some (ip, ellipsis, rest) \<Rightarrow>
             if rest \<noteq> [] then []
             else if length ip < 16 then
               (if ellipsis < 0 then []
                else take (nat ellipsis) ip @ replicate (16 - length ip) 0 @ drop (nat ellipsis) ip)
             else if ellipsis \<ge> 0 then []
             else ip))"

text \<open>
  \<^verbatim>\<open>net.ParseIP\<close>: the first dot or colon of the string decides between the two
  parsers; a string with neither is no address (nil). The result has 16 bytes.
\<close>

fun ParseIP_scan :: "string \<Rightarrow> string \<Rightarrow> IP" where
  "ParseIP_scan [] s = []"
| "ParseIP_scan (c # cs) s =
     (if c = CHR ''.'' then parseIPv4 s
      else if c = CHR '':'' then parseIPv6 s
      else ParseIP_scan cs s)"

definition ParseIP :: "string \<Rightarrow> IP" where
  "ParseIP s = ParseIP_scan s s"

subsection \<open>\<^verbatim>\<open>net.IPNet\<close> and \<^verbatim>\<open>net.ParseCIDR\<close>\<close>

text \<open>
  \<^verbatim>\<open>networkNumberAndMask\<close>: the address and the mask of a network at the same length
  (4 or 16 bytes), or two nil slices when the network is malformed.
\<close>

definition networkNumberAndMask :: "IPNet \<Rightarrow> IP \<times> IPMask" where
  "networkNumberAndMask n =
     (let ip = (if To4 (IP n) = [] then IP n else To4 (IP n)) in
      if To4 (IP n) = [] \<and> length (IP n) \<noteq> 16 then ([], [])
      else if length (Mask n) = 4 then (if length ip \<noteq> 4 then ([], []) else (ip, Mask n))
      else if length (Mask n) = 16 then (if length ip = 4 then (ip, drop 12 (Mask n)) else (ip, Mask n))
      else ([], []))"

text \<open>
  \<^verbatim>\<open>n.Contains(ip)\<close> on a \<^verbatim>\<open>*net.IPNet\<close>. The method reads \<^verbatim>\<open>n.IP\<close> first: on the nil
  pointer it panics.
\<close>

definition Contains :: "IPNet option \<Rightarrow> IP \<Rightarrow> stop + bool" where
  "Contains n ip =
     (case n of
        None \<Rightarrow> Inl nil_pointer_dereference
      | Some net \<Rightarrow>
          (case networkNumberAndMask net of (nn, m) \<Rightarrow>
             (let ip1 = (if To4 ip = [] then ip else To4 ip); l = length ip1 in
              if l \<noteq> length nn then Inr False
              else Inr (list_all (\<lambda>i. (nn ! i) AND (m ! i) = (ip1 ! i) AND (m ! i)) [0..<l]))))"

text \<open>
  \<^verbatim>\<open>simpleMaskLength\<close>: the number of leading one bits of a mask that is ones followed
  by zeros, and \<open>-1\<close> for any other mask. \<open>leading_ones\<close> is its inner loop
  (\<^verbatim>\<open>for v&0x80 != 0 { n++; v <<= 1 }\<close>), which ends within eight rounds since each shifts
  a zero bit in.
\<close>

fun leading_ones :: "nat \<Rightarrow> byte \<Rightarrow> nat \<Rightarrow> nat \<times> byte" where
  "leading_ones 0 v n = (n, v)"
| "leading_ones (Suc k) v n =
     (if v AND 0x80 \<noteq> 0 then leading_ones k (push_bit 1 v) (n + 1) else (n, v))"

fun simpleMaskLength_loop :: "IPMask \<Rightarrow> nat \<Rightarrow> int" where
  "simpleMaskLength_loop [] n = int n"
| "simpleMaskLength_loop (v # rest) n =
     (if v = 0xff then simpleMaskLength_loop rest (n + 8)
      else
        (case leading_ones 8 v n of (n1, v1) \<Rightarrow>
           if v1 \<noteq> 0 then - 1
           else if list_all (\<lambda>b. b = 0) rest then int n1
           else - 1))"

definition simpleMaskLength :: "IPMask \<Rightarrow> int" where
  "simpleMaskLength msk = simpleMaskLength_loop msk 0"

definition IPMask_String :: "IPMask \<Rightarrow> string" where
  "IPMask_String m = (if length m = 0 then ''<nil>'' else hexString m)"

text \<open>
  \<^verbatim>\<open>n.String()\<close>: the address, a slash and the prefix length; \<^verbatim>\<open><nil>\<close> for the nil
  pointer and for a malformed network.
\<close>

definition IPNet_String :: "IPNet option \<Rightarrow> string" where
  "IPNet_String n =
     (case n of
        None \<Rightarrow> ''<nil>''
      | Some net \<Rightarrow>
          (case networkNumberAndMask net of (nn, m) \<Rightarrow>
             if nn = [] then ''<nil>''
             else if m = [] then ''<nil>''
             else if simpleMaskLength m = - 1 then IP_String nn @ ''/'' @ IPMask_String m
             else IP_String nn @ ''/'' @ uitoa (nat (simpleMaskLength m))))"

text \<open>\<^verbatim>\<open>net.CIDRMask(ones, bits)\<close> and \<^verbatim>\<open>ip.Mask(mask)\<close>.\<close>

fun CIDRMask_loop :: "nat \<Rightarrow> nat \<Rightarrow> IPMask" where
  "CIDRMask_loop 0 n = []"
| "CIDRMask_loop (Suc l) n =
     (if n \<ge> 8 then 0xff # CIDRMask_loop l (n - 8)
      else (NOT (drop_bit n (0xff :: byte))) # CIDRMask_loop l 0)"

definition CIDRMask :: "nat \<Rightarrow> nat \<Rightarrow> IPMask" where
  "CIDRMask ones bits =
     (if bits \<noteq> 32 \<and> bits \<noteq> 128 then []
      else if ones > bits then []
      else CIDRMask_loop (bits div 8) ones)"

definition IP_Mask :: "IP \<Rightarrow> IPMask \<Rightarrow> IP" where
  "IP_Mask ip msk =
     (let msk1 = (if length msk = 16 \<and> length ip = 4 \<and> allFF (take 12 msk)
                   then drop 12 msk else msk);
          ip1 = (if length msk1 = 4 \<and> length ip = 16 \<and> take 12 ip = v4InV6Prefix
                 then drop 12 ip else ip)
      in if length ip1 \<noteq> length msk1 then [] else map2 (AND) ip1 msk1)"

text \<open>
  \<^verbatim>\<open>net.ParseCIDR(s)\<close>, without the address it also returns (the package drops it): the
  network of the address before the slash, masked to the prefix length after it, or a
  \<^verbatim>\<open>*net.ParseError\<close>.
\<close>

definition ParseCIDR :: "string \<Rightarrow> error + IPNet" where
  "ParseCIDR s =
     (if CHR ''/'' \<notin> set s then Inl (ParseError ''CIDR address'' s)
      else
        (let addr = takeWhile (\<lambda>c. c \<noteq> CHR ''/'') s;
             msk = tl (dropWhile (\<lambda>c. c \<noteq> CHR ''/'') s);
             iplen = (if parseIPv4 addr = [] then 16 else 4);
             ip = (if parseIPv4 addr = [] then parseIPv6 addr else parseIPv4 addr)
         in case dtoi msk of (n, i, ok) \<Rightarrow>
              if ip = [] then Inl (ParseError ''CIDR address'' s)
              else if \<not> ok then Inl (ParseError ''CIDR address'' s)
              else if i \<noteq> length msk then Inl (ParseError ''CIDR address'' s)
              else if n > 8 * iplen then Inl (ParseError ''CIDR address'' s)
              else Inr \<lparr>IP = IP_Mask ip (CIDRMask n (8 * iplen)), Mask = CIDRMask n (8 * iplen)\<rparr>))"

section \<open>Host allowlist\<close>

text \<open>\<^verbatim>\<open>validIP\<close>: a length check.\<close>

definition validIP :: "IP \<Rightarrow> bool" where
  "validIP ip = (if length ip = 4 then True else if length ip = 16 then True else False)"

text \<open>
  \<^verbatim>\<open>Basic\<close> and \<^verbatim>\<open>BasicNet\<close> have the same two fields, a pointer to a mutex and the
  collection: one record, with the collection's type its parameter. The collection of
  \<^verbatim>\<open>Basic\<close> is a \<^verbatim>\<open>map[string]bool\<close>, which may be the nil map (\<open>None\<close>); that of
  \<^verbatim>\<open>BasicNet\<close> is a slice of \<^verbatim>\<open>*net.IPNet\<close>, whose nil value is the empty list.
\<close>

record 'c acl =
  lock :: "Mutex option"
  allowlist :: 'c

type_synonym Basic = "(string \<rightharpoonup> bool) option acl"
type_synonym BasicNet = "IPNet option list acl"

text \<open>Reading a Go map: the zero value (\<^verbatim>\<open>false\<close>) for a missing key and for the nil map.\<close>

definition map_index :: "(string \<rightharpoonup> bool) option \<Rightarrow> string \<Rightarrow> bool" where
  "map_index m k = (case m of None \<Rightarrow> False | Some f \<Rightarrow> (case f k of None \<Rightarrow> False | Some b \<Rightarrow> b))"

definition NewBasic :: Basic where
  "NewBasic = \<lparr>lock = Some (Mutex False), allowlist = Some Map.empty\<rparr>"

text \<open>
  \<^verbatim>\<open>Permitted\<close> returns a \<^verbatim>\<open>bool\<close> and leaves the list as it was: the mutex it takes is
  released before it returns.
\<close>

definition Basic_Permitted :: "IP \<Rightarrow> Basic \<Rightarrow> stop + bool" where
  "Basic_Permitted ip wl =
     (if \<not> validIP ip then Inr False
      else
        and_then (Lock (lock wl)) (\<lambda>l.
          let permitted = map_index (allowlist wl) (IP_String ip) in
          and_then (Unlock l) (\<lambda>l'. Inr permitted)))"

text \<open>
  \<^verbatim>\<open>Add\<close> and \<^verbatim>\<open>Remove\<close> return nothing; the model returns the list after the call.
  Assigning into the nil map panics; \<^verbatim>\<open>delete\<close> on it does nothing.
\<close>

definition Basic_Add :: "IP \<Rightarrow> Basic \<Rightarrow> stop + Basic" where
  "Basic_Add ip wl =
     (if \<not> validIP ip then Inr wl
      else
        and_then (Lock (lock wl)) (\<lambda>l.
          case allowlist wl of
            None \<Rightarrow> Inl assignment_to_entry_in_nil_map
          | Some m \<Rightarrow>
              and_then (Unlock l) (\<lambda>l'.
                Inr (wl\<lparr>lock := l', allowlist := Some (m(IP_String ip \<mapsto> True))\<rparr>))))"

definition Basic_Remove :: "IP \<Rightarrow> Basic \<Rightarrow> stop + Basic" where
  "Basic_Remove ip wl =
     (if \<not> validIP ip then Inr wl
      else
        and_then (Lock (lock wl)) (\<lambda>l.
          and_then (Unlock l) (\<lambda>l'.
            Inr (wl\<lparr>lock := l',
                     allowlist := map_option (\<lambda>m. m(IP_String ip := None)) (allowlist wl)\<rparr>))))"

subsection \<open>Serialisation of the host allowlist\<close>

text \<open>
  Go leaves the order in which \<^verbatim>\<open>range\<close> visits a map open. The functions that range
  over \<^verbatim>\<open>wl.allowlist\<close> take the order of that visit as their argument \<open>ks\<close>; \<open>range_order\<close>
  says that \<open>ks\<close> is such an order: every key once (none for the nil map).
\<close>

definition range_order :: "(string \<rightharpoonup> bool) option \<Rightarrow> string list \<Rightarrow> bool" where
  "range_order m ks = (distinct ks \<and> set ks = (case m of None \<Rightarrow> {} | Some f \<Rightarrow> dom f))"

text \<open>\<^verbatim>\<open>MarshalJSON\<close> returns the bytes and a nil error.\<close>

definition Basic_MarshalJSON :: "string list \<Rightarrow> Basic \<Rightarrow> stop + (string \<times> error option)" where
  "Basic_MarshalJSON ks wl =
     and_then (Lock (lock wl)) (\<lambda>l.
       let ss = ks;
           out = [CHR 0x22] @ Join ss '','' @ [CHR 0x22]
       in and_then (Unlock l) (\<lambda>l'. Inr (out, None)))"

text \<open>
  The loop of \<^verbatim>\<open>Basic.UnmarshalJSON\<close> over the pieces of the input, filling the new map:
  \<open>Inl addr\<close> when \<^verbatim>\<open>net.ParseIP\<close> refuses the piece \<open>addr\<close>.
\<close>

fun UnmarshalJSON_hosts :: "string list \<Rightarrow> (string \<rightharpoonup> bool) \<Rightarrow> string + (string \<rightharpoonup> bool)" where
  "UnmarshalJSON_hosts [] m = Inr m"
| "UnmarshalJSON_hosts (t # ts) m =
     (let addr = TrimSpace t in
      if addr = [] then UnmarshalJSON_hosts ts m
      else if ParseIP addr = [] then Inl addr
      else UnmarshalJSON_hosts ts (m(addr \<mapsto> True)))"

text \<open>
  \<^verbatim>\<open>UnmarshalJSON\<close> returns an error or nil; the model returns it with the list after the
  call. \<^verbatim>\<open>in[0]\<close> on the empty input and \<^verbatim>\<open>in[1 : len(in)-1]\<close> on an input of one byte
  panic.
\<close>

definition Basic_UnmarshalJSON :: "string \<Rightarrow> Basic \<Rightarrow> stop + (error option \<times> Basic)" where
  "Basic_UnmarshalJSON inp wl =
     (if inp = [] then Inl index_out_of_range
      else if hd inp \<noteq> CHR 0x22 then Inr (Some (errors_New ''allowlist: invalid allowlist''), wl)
      else if last inp \<noteq> CHR 0x22 then Inr (Some (errors_New ''allowlist: invalid allowlist''), wl)
      else
        and_then (Lock (if lock wl = None then Some (Mutex False) else lock wl)) (\<lambda>l.
          if length inp < 2 then Inl slice_bounds_out_of_range
          else
            (let netString = TrimSpace (take (length inp - 2) (drop 1 inp));
                 nets = Split netString (CHR '','')
             in case UnmarshalJSON_hosts nets Map.empty of
                  Inl addr \<Rightarrow>
                    and_then (Unlock l) (\<lambda>l'.
                      Inr (Some (errors_New (''allowlist: invalid IP address '' @ addr)),
                           wl\<lparr>lock := l', allowlist := None\<rparr>))
                | Inr m \<Rightarrow>
                    and_then (Unlock l) (\<lambda>l'.
                      Inr (None, wl\<lparr>lock := l', allowlist := Some m\<rparr>)))))"

text \<open>\<^verbatim>\<open>DumpBasic\<close>: the keys, sorted, one on each line.\<close>

definition DumpBasic :: "string list \<Rightarrow> Basic \<Rightarrow> stop + string" where
  "DumpBasic ks wl =
     and_then (Lock (lock wl)) (\<lambda>l.
       let addrs = sort_Strings ks;
           addrList = Join addrs [CHR 0x0A]
       in and_then (Unlock l) (\<lambda>l'. Inr addrList))"

text \<open>
  \<^verbatim>\<open>LoadBasic\<close> returns a new list or an error. Its loop adds the address of every
  line to \<open>wl\<close> with \<^verbatim>\<open>wl.Add\<close>.
\<close>

fun LoadBasic_loop :: "string list \<Rightarrow> Basic \<Rightarrow> stop + (error + Basic)" where
  "LoadBasic_loop [] wl = Inr (Inr wl)"
| "LoadBasic_loop (addr # addrs) wl =
     (if ParseIP addr = [] then Inr (Inl (errors_New ''allowlist: invalid address''))
      else and_then (Basic_Add (ParseIP addr) wl) (\<lambda>wl'. LoadBasic_loop addrs wl'))"

definition LoadBasic :: "string \<Rightarrow> stop + (error + Basic)" where
  "LoadBasic inp = LoadBasic_loop (Split inp (CHR 0x0A)) NewBasic"

section \<open>Network allowlist\<close>

definition NewBasicNet :: BasicNet where
  "NewBasicNet = \<lparr>lock = Some (Mutex False), allowlist = []\<rparr>"

text \<open>The loop of \<^verbatim>\<open>BasicNet.Permitted\<close>: the first network that contains the address.\<close>

fun Permitted_loop :: "IPNet option list \<Rightarrow> IP \<Rightarrow> stop + bool" where
  "Permitted_loop [] ip = Inr False"
| "Permitted_loop (n # ns) ip =
     and_then (Contains n ip) (\<lambda>c. if c then Inr True else Permitted_loop ns ip)"

definition BasicNet_Permitted :: "IP \<Rightarrow> BasicNet \<Rightarrow> stop + bool" where
  "BasicNet_Permitted ip wl =
     (if \<not> validIP ip then Inr False
      else
        and_then (Lock (lock wl)) (\<lambda>l.
          and_then (Permitted_loop (allowlist wl) ip) (\<lambda>r.
            and_then (Unlock l) (\<lambda>l'. Inr r))))"

definition BasicNet_Add :: "IPNet option \<Rightarrow> BasicNet \<Rightarrow> stop + BasicNet" where
  "BasicNet_Add n wl =
     (if n = None then Inr wl
      else
        and_then (Lock (lock wl)) (\<lambda>l.
          and_then (Unlock l) (\<lambda>l'.
            Inr (wl\<lparr>lock := l', allowlist := allowlist wl @ [n]\<rparr>))))"

text \<open>
  The search loop of \<^verbatim>\<open>BasicNet.Remove\<close>: the index of the first entry whose
  \<^verbatim>\<open>String()\<close> is \<open>s\<close>, counting from \<open>i\<close>, and \<open>-1\<close> when there is none.
\<close>

fun Remove_index :: "IPNet option list \<Rightarrow> string \<Rightarrow> nat \<Rightarrow> int" where
  "Remove_index [] s i = - 1"
| "Remove_index (e # es) s i = (if IPNet_String e = s then int i else Remove_index es s (i + 1))"

definition BasicNet_Remove :: "IPNet option \<Rightarrow> BasicNet \<Rightarrow> stop + BasicNet" where
  "BasicNet_Remove n wl =
     (if n = None then Inr wl
      else
        and_then (Lock (lock wl)) (\<lambda>l.
          let index = Remove_index (allowlist wl) (IPNet_String n) 0 in
          if index = - 1 then and_then (Unlock l) (\<lambda>l'. Inr (wl\<lparr>lock := l'\<rparr>))
          else
            and_then (Unlock l) (\<lambda>l'.
              Inr (wl\<lparr>lock := l',
                       allowlist := take (nat index) (allowlist wl) @
                                    drop (nat index + 1) (allowlist wl)\<rparr>))))"

text \<open>\<^verbatim>\<open>BasicNet.MarshalJSON\<close> reads the slice; it makes no call on \<^verbatim>\<open>wl.lock\<close>.\<close>

definition BasicNet_MarshalJSON :: "BasicNet \<Rightarrow> stop + (string \<times> error option)" where
  "BasicNet_MarshalJSON wl =
     (let ss = map IPNet_String (allowlist wl);
          out = [CHR 0x22] @ Join ss '','' @ [CHR 0x22]
      in Inr (out, None))"

text \<open>
  The loop of \<^verbatim>\<open>BasicNet.UnmarshalJSON\<close>: \<open>al\<close> is the new slice, made with one nil entry
  for every piece, and \<open>i\<close> the index of the piece \<open>t\<close>. An empty piece is passed over,
  and its entry stays nil.
\<close>

fun UnmarshalJSON_nets :: "string list \<Rightarrow> IPNet option list \<Rightarrow> nat \<Rightarrow> error + IPNet option list" where
  "UnmarshalJSON_nets [] al i = Inr al"
| "UnmarshalJSON_nets (t # ts) al i =
     (let addr = TrimSpace t in
      if addr = [] then UnmarshalJSON_nets ts al (i + 1)
      else
        (case ParseCIDR addr of
           Inl err \<Rightarrow> Inl err
         | Inr n \<Rightarrow> UnmarshalJSON_nets ts (al[i := Some n]) (i + 1)))"

definition BasicNet_UnmarshalJSON :: "string \<Rightarrow> BasicNet \<Rightarrow> stop + (error option \<times> BasicNet)" where
  "BasicNet_UnmarshalJSON inp wl =
     (if inp = [] then Inl index_out_of_range
      else if hd inp \<noteq> CHR 0x22 then Inr (Some (errors_New ''allowlist: invalid allowlist''), wl)
      else if last inp \<noteq> CHR 0x22 then Inr (Some (errors_New ''allowlist: invalid allowlist''), wl)
      else
        and_then (Lock (if lock wl = None then Some (Mutex False) else lock wl)) (\<lambda>l.
          if length inp < 2 then Inl slice_bounds_out_of_range
          else
            (let netString = TrimSpace (take (length inp - 2) (drop 1 inp));
                 nets = Split netString (CHR '','')
             in case UnmarshalJSON_nets nets (replicate (length nets) None) 0 of
                  Inl err \<Rightarrow>
                    and_then (Unlock l) (\<lambda>l'.
                      Inr (Some err, wl\<lparr>lock := l', allowlist := []\<rparr>))
                | Inr al \<Rightarrow>
                    and_then (Unlock l) (\<lambda>l'.
                      Inr (None, wl\<lparr>lock := l', allowlist := al\<rparr>)))))"

section \<open>HTTP handlers\<close>

text \<open>
  Of a \<^verbatim>\<open>*http.Request\<close> the package reads \<^verbatim>\<open>RemoteAddr\<close>; \<open>None\<close> is the nil pointer.
  \<^verbatim>\<open>net.SplitHostPort\<close> is the argument \<open>SplitHostPort\<close>: its error, or the host and
  the port.
\<close>

record Request =
  RemoteAddr :: string

definition HTTPRequestLookup ::
    "(string \<Rightarrow> error + string \<times> string) \<Rightarrow> Request option \<Rightarrow> error + IP" where
  "HTTPRequestLookup SplitHostPort req =
     (case req of
        None \<Rightarrow> Inl (errors_New ''allowlist: no request'')
      | Some r \<Rightarrow>
          (case SplitHostPort (RemoteAddr r) of
             Inl err \<Rightarrow> Inl err
           | Inr (addr, port) \<Rightarrow> Inr (ParseIP addr)))"

text \<open>
  What a handler does to the world, in order: a line in the log, an error response
  (\<^verbatim>\<open>http.Error\<close> with the status text and the status code), or a call of one of its two
  delegates with the response writer and the request. A delegate is a value of the
  type \<open>'h\<close>, and \<open>None\<close> is nil.
\<close>

datatype 'h effect =
    log_Printf string error
  | http_Error string nat
  | call_allow 'h
  | call_deny 'h

text \<open>The interface \<^verbatim>\<open>ACL\<close> has one method, \<^verbatim>\<open>Permitted(net.IP) bool\<close>.\<close>

type_synonym ACL = "IP \<Rightarrow> bool"

record 'h Handler =
  allowHandler :: "'h option"
  denyHandler :: "'h option"
  h_allowlist :: "ACL option"

definition NewHandler :: "'h option \<Rightarrow> 'h option \<Rightarrow> ACL option \<Rightarrow> error + 'h Handler" where
  "NewHandler allow deny acl =
     (if allow = None then Inl (errors_New ''allowlist: allow cannot be nil'')
      else if acl = None then Inl (errors_New ''allowlist: ACL cannot be nil'')
      else Inr \<lparr>allowHandler = allow, denyHandler = deny, h_allowlist = acl\<rparr>)"

definition Handler_ServeHTTP ::
    "(string \<Rightarrow> error + string \<times> string) \<Rightarrow> 'h Handler \<Rightarrow> Request option \<Rightarrow> stop + 'h effect list" where
  "Handler_ServeHTTP SplitHostPort h req =
     (case HTTPRequestLookup SplitHostPort req of
        Inl err \<Rightarrow>
          Inr [log_Printf ''failed to lookup request address: %v'' err,
               http_Error ''Internal Server Error'' 500]
      | Inr ip \<Rightarrow>
          (case h_allowlist h of
             None \<Rightarrow> Inl nil_pointer_dereference
           | Some acl \<Rightarrow>
               if acl ip then
                 (case allowHandler h of
                    None \<Rightarrow> Inl nil_pointer_dereference
                  | Some a \<Rightarrow> Inr [call_allow a])
               else
                 (case denyHandler h of
                    None \<Rightarrow> Inr [http_Error ''Unauthorized'' 401]
                  | Some d \<Rightarrow> Inr [call_deny d])))"

record 'h HandlerFunc =
  allow :: "'h option"
  deny :: "'h option"
  hf_allowlist :: "ACL option"

definition NewHandlerFunc :: "'h option \<Rightarrow> 'h option \<Rightarrow> ACL option \<Rightarrow> error + 'h HandlerFunc" where
  "NewHandlerFunc allow_f deny_f acl =
     (if allow_f = None then Inl (errors_New ''allowlist: allow cannot be nil'')
      else if acl = None then Inl (errors_New ''allowlist: ACL cannot be nil'')
      else Inr \<lparr>allow = allow_f, deny = deny_f, hf_allowlist = acl\<rparr>)"

definition HandlerFunc_ServeHTTP ::
    "(string \<Rightarrow> error + string \<times> string) \<Rightarrow> 'h HandlerFunc \<Rightarrow> Request option \<Rightarrow> stop + 'h effect list" where
  "HandlerFunc_ServeHTTP SplitHostPort h req =
     (case HTTPRequestLookup SplitHostPort req of
        Inl err \<Rightarrow>
          Inr [log_Printf ''failed to lookup request address: %v'' err,
               http_Error ''Internal Server Error'' 500]
      | Inr ip \<Rightarrow>
          (case hf_allowlist h of
             None \<Rightarrow> Inl nil_pointer_dereference
           | Some acl \<Rightarrow>
               if acl ip then
                 (case allow h of
                    None \<Rightarrow> Inl nil_pointer_dereference
                  | Some a \<Rightarrow> Inr [call_allow a])
               else
                 (case deny h of
                    None \<Rightarrow> Inr [http_Error ''Unauthorized'' 401]
                  | Some d \<Rightarrow> Inr [call_deny d])))"

section \<open>The ranges of the examples\<close>

text \<open>
  \<^verbatim>\<open>10.0.0.0/8\<close> and \<^verbatim>\<open>10.1.0.0/16\<close>, as \<^verbatim>\<open>net.ParseCIDR\<close> returns them: four bytes of
  address and four of mask.
\<close>

definition R1 :: IPNet where
  "R1 = \<lparr>IP = [10, 0, 0, 0], Mask = [255, 0, 0, 0]\<rparr>"

definition R2 :: IPNet where
  "R2 = \<lparr>IP = [10, 1, 0, 0], Mask = [255, 255, 0, 0]\<rparr>"

section \<open>Properties\<close>

subsection \<open>The mutex and sequencing\<close>

lemma Lock_free: "Lock (Some (Mutex False)) = Inr (Some (Mutex True))"
  by (simp add: Lock_def)

lemma Lock_held: "Lock (Some (Mutex True)) = Inl blocked"
  by (simp add: Lock_def)

lemma Lock_nil: "Lock None = Inl nil_pointer_dereference"
  by (simp add: Lock_def)

lemma Unlock_held: "Unlock (Some (Mutex True)) = Inr (Some (Mutex False))"
  by (simp add: Unlock_def)

lemma and_then_Inr: "and_then (Inr x) f = f x"
  by (simp add: and_then_def)

lemma and_then_Inl: "and_then (Inl e) f = Inl e"
  by (simp add: and_then_def)

lemmas lock_simps = Lock_free Lock_held Lock_nil Unlock_held and_then_Inr and_then_Inl

lemma Mutex_cases:
  obtains (nil) "m = None" | (held) "m = Some (Mutex True)" | (free) "m = Some (Mutex False)"
proof (cases m)
  case None
  then show ?thesis by (rule nil)
next
  case (Some x)
  then show ?thesis
  proof (cases x)
    case (Mutex b)
    with Some show ?thesis by (cases b) (auto intro: held free)
  qed
qed

subsection \<open>Host allowlist: membership\<close>

lemma Basic_Permitted_free:
  "validIP ip \<Longrightarrow> lock wl = Some (Mutex False) \<Longrightarrow>
   Basic_Permitted ip wl = Inr (map_index (allowlist wl) (IP_String ip))"
  by (simp add: Basic_Permitted_def lock_simps)

lemma Basic_Add_free:
  "validIP ip \<Longrightarrow> lock wl = Some (Mutex False) \<Longrightarrow> allowlist wl = Some m \<Longrightarrow>
   Basic_Add ip wl = Inr (wl\<lparr>allowlist := Some (m(IP_String ip \<mapsto> True))\<rparr>)"
  by (simp add: Basic_Add_def lock_simps)

lemma Basic_Remove_free:
  "validIP ip \<Longrightarrow> lock wl = Some (Mutex False) \<Longrightarrow>
   Basic_Remove ip wl =
     Inr (wl\<lparr>allowlist := map_option (\<lambda>m. m(IP_String ip := None)) (allowlist wl)\<rparr>)"
  by (simp add: Basic_Remove_def lock_simps)

lemma Basic_Add_Inr:
  assumes "validIP ip" and "Basic_Add ip wl = Inr wl1"
  shows "lock wl = Some (Mutex False) \<and> (\<exists>m. allowlist wl = Some m)"
proof (cases "lock wl" rule: Mutex_cases)
  case nil
  with assms show ?thesis by (simp add: Basic_Add_def lock_simps)
next
  case held
  with assms show ?thesis by (simp add: Basic_Add_def lock_simps)
next
  case free
  with assms show ?thesis
    by (cases "allowlist wl") (simp_all add: Basic_Add_def lock_simps)
qed

text \<open>
  C3. For every valid address \<open>a\<close> and every state \<open>wl\<close> of the host list: once
  \<^verbatim>\<open>Add(a)\<close> has returned, \<^verbatim>\<open>Permitted(a)\<close> returns true, a following \<^verbatim>\<open>Remove(a)\<close>
  returns, and after it \<^verbatim>\<open>Permitted(a)\<close> returns false. \<^verbatim>\<open>Add(a)\<close> returns exactly on the
  lists whose mutex is allocated and free and whose map is allocated, as \<open>NewBasic\<close> and
  every call that returns without an error leave them.
\<close>

theorem Add_then_Permitted_Remove_then_not:
  assumes "validIP a"
  shows "(Basic_Add a wl = Inr wl1 \<longrightarrow>
            Basic_Permitted a wl1 = Inr True \<and>
            (\<exists>wl2. Basic_Remove a wl1 = Inr wl2 \<and> Basic_Permitted a wl2 = Inr False)) \<and>
         ((\<exists>wl'. Basic_Add a wl = Inr wl') \<longleftrightarrow>
            lock wl = Some (Mutex False) \<and> allowlist wl \<noteq> None)"
proof (intro conjI impI)
  assume add: "Basic_Add a wl = Inr wl1"
  from Basic_Add_Inr [OF assms add] obtain m
    where free: "lock wl = Some (Mutex False)" and m: "allowlist wl = Some m"
    by blast
  from add Basic_Add_free [OF assms free m]
  have wl1: "wl1 = wl\<lparr>allowlist := Some (m(IP_String a \<mapsto> True))\<rparr>"
    by simp
  then have free1: "lock wl1 = Some (Mutex False)"
    using free by simp
  show "Basic_Permitted a wl1 = Inr True"
    using assms free1 wl1 by (simp add: Basic_Permitted_free map_index_def)
  let ?wl2 = "wl1\<lparr>allowlist := map_option (\<lambda>m. m(IP_String a := None)) (allowlist wl1)\<rparr>"
  have rem: "Basic_Remove a wl1 = Inr ?wl2"
    using assms free1 by (rule Basic_Remove_free)
  have "lock ?wl2 = Some (Mutex False)"
    using free1 by simp
  then have "Basic_Permitted a ?wl2 = Inr False"
    using assms wl1 by (simp add: Basic_Permitted_free map_index_def)
  with rem show "\<exists>wl2. Basic_Remove a wl1 = Inr wl2 \<and> Basic_Permitted a wl2 = Inr False"
    by blast
next
  show "(\<exists>wl'. Basic_Add a wl = Inr wl') \<longleftrightarrow> lock wl = Some (Mutex False) \<and> allowlist wl \<noteq> None"
  proof
    assume "\<exists>wl'. Basic_Add a wl = Inr wl'"
    then obtain wl' where "Basic_Add a wl = Inr wl'" ..
    from Basic_Add_Inr [OF assms this] show "lock wl = Some (Mutex False) \<and> allowlist wl \<noteq> None"
      by auto
  next
    assume "lock wl = Some (Mutex False) \<and> allowlist wl \<noteq> None"
    then obtain m where "lock wl = Some (Mutex False)" and "allowlist wl = Some m"
      by auto
    from Basic_Add_free [OF assms this] show "\<exists>wl'. Basic_Add a wl = Inr wl'"
      by blast
  qed
qed

lemma validIP_127: "validIP [127, 0, 0, 1]"
  by (simp add: validIP_def)

lemma IP_String_127: "IP_String [127, 0, 0, 1] = ''127.0.0.1''"
  by code_simp

theorem Add_then_Permitted_Remove_then_not_witness:
  "validIP [127, 0, 0, 1] \<and>
   Basic_Add [127, 0, 0, 1] NewBasic =
     Inr \<lparr>lock = Some (Mutex False), allowlist = Some [''127.0.0.1'' \<mapsto> True]\<rparr> \<and>
   Basic_Permitted [127, 0, 0, 1]
     \<lparr>lock = Some (Mutex False), allowlist = Some [''127.0.0.1'' \<mapsto> True]\<rparr> = Inr True \<and>
   (\<exists>wl2. Basic_Remove [127, 0, 0, 1]
       \<lparr>lock = Some (Mutex False), allowlist = Some [''127.0.0.1'' \<mapsto> True]\<rparr> = Inr wl2 \<and>
     Basic_Permitted [127, 0, 0, 1] wl2 = Inr False)"
proof -
  have add: "Basic_Add [127, 0, 0, 1] NewBasic =
      Inr \<lparr>lock = Some (Mutex False), allowlist = Some [''127.0.0.1'' \<mapsto> True]\<rparr>"
    by (simp add: Basic_Add_def NewBasic_def validIP_127 IP_String_127 lock_simps)
  from Add_then_Permitted_Remove_then_not [OF validIP_127, of NewBasic
      "\<lparr>lock = Some (Mutex False), allowlist = Some [''127.0.0.1'' \<mapsto> True]\<rparr>"] add validIP_127
  show ?thesis by simp
qed

subsection \<open>Addresses of an invalid length\<close>






subsection \<open>Removing twice\<close>

lemma Basic_Remove_twice:
  "and_then (Basic_Remove a wl) (Basic_Remove a) = Basic_Remove a wl"
proof (cases "validIP a")
  case False
  then show ?thesis by (simp add: Basic_Remove_def and_then_Inr)
next
  case True
  show ?thesis
  proof (cases "lock wl" rule: Mutex_cases)
    case nil
    then show ?thesis using True by (simp add: Basic_Remove_def lock_simps)
  next
    case held
    then show ?thesis using True by (simp add: Basic_Remove_def lock_simps)
  next
    case free
    then show ?thesis using True
      by (cases "allowlist wl") (simp_all add: Basic_Remove_def lock_simps)
  qed
qed

lemma Remove_index_eq:
  "Remove_index es s i =
     (if list_ex (\<lambda>e. IPNet_String e = s) es
      then int (i + length (takeWhile (\<lambda>e. IPNet_String e \<noteq> s) es)) else - 1)"
  by (induction es arbitrary: i) auto

lemma filter_remove_first:
  "list_ex P es \<Longrightarrow>
   filter P (take (length (takeWhile (\<lambda>e. \<not> P e) es)) es @
             drop (Suc (length (takeWhile (\<lambda>e. \<not> P e) es))) es) = tl (filter P es)"
  by (induction es) auto

lemma list_ex_filter: "list_ex P es \<longleftrightarrow> filter P es \<noteq> []"
  by (induction es) auto

text \<open>
  What \<^verbatim>\<open>BasicNet.Remove\<close> does to a list whose mutex is free: nothing when no entry has
  the string of the range, and else it takes out the first entry that has it.
\<close>

lemma BasicNet_Remove_free:
  assumes "lock wl = Some (Mutex False)"
  shows "BasicNet_Remove (Some n) wl =
     (if list_ex (\<lambda>e. IPNet_String e = IPNet_String (Some n)) (allowlist wl)
      then Inr (wl\<lparr>allowlist :=
             take (length (takeWhile (\<lambda>e. IPNet_String e \<noteq> IPNet_String (Some n)) (allowlist wl)))
               (allowlist wl) @
             drop (Suc (length (takeWhile (\<lambda>e. IPNet_String e \<noteq> IPNet_String (Some n)) (allowlist wl))))
               (allowlist wl)\<rparr>)
      else Inr wl)"
  using assms by (simp add: BasicNet_Remove_def Remove_index_eq lock_simps Let_def)

lemma BasicNet_Remove_twice:
  assumes "length (filter (\<lambda>e. IPNet_String e = IPNet_String n) (allowlist wl)) \<le> 1"
  shows "and_then (BasicNet_Remove n wl) (BasicNet_Remove n) = BasicNet_Remove n wl"
proof (cases n)
  case None
  then show ?thesis by (simp add: BasicNet_Remove_def and_then_Inr)
next
  case (Some r)
  show ?thesis
  proof (cases "lock wl" rule: Mutex_cases)
    case nil
    then show ?thesis using Some by (simp add: BasicNet_Remove_def lock_simps)
  next
    case held
    then show ?thesis using Some by (simp add: BasicNet_Remove_def lock_simps)
  next
    case free
    let ?P = "\<lambda>e. IPNet_String e = IPNet_String (Some r)"
    let ?k = "length (takeWhile (\<lambda>e. \<not> ?P e) (allowlist wl))"
    let ?al = "take ?k (allowlist wl) @ drop (Suc ?k) (allowlist wl)"
    show ?thesis
    proof (cases "list_ex ?P (allowlist wl)")
      case False
      with free Some show ?thesis
        by (simp add: BasicNet_Remove_free and_then_Inr)
    next
      case True
      then have "filter ?P ?al = tl (filter ?P (allowlist wl))"
        by (rule filter_remove_first)
      moreover have "tl (filter ?P (allowlist wl)) = []"
        using assms Some by (cases "filter ?P (allowlist wl)") auto
      ultimately have none: "\<not> list_ex ?P ?al"
        by (simp add: list_ex_filter)
      have first: "BasicNet_Remove (Some r) wl = Inr (wl\<lparr>allowlist := ?al\<rparr>)"
        using free True by (simp add: BasicNet_Remove_free)
      have "lock (wl\<lparr>allowlist := ?al\<rparr>) = Some (Mutex False)"
        using free by simp
      then have "BasicNet_Remove (Some r) (wl\<lparr>allowlist := ?al\<rparr>) = Inr (wl\<lparr>allowlist := ?al\<rparr>)"
        using none by (simp add: BasicNet_Remove_free)
      with first Some show ?thesis
        by (simp add: and_then_Inr)
    qed
  qed
qed

lemma IPNet_String_R1: "IPNet_String (Some R1) = ''10.0.0.0/8''"
  by code_simp

lemma IPNet_String_R2: "IPNet_String (Some R2) = ''10.1.0.0/16''"
  by code_simp

lemma ParseCIDR_R1: "ParseCIDR ''10.0.0.0/8'' = Inr R1"
  by code_simp

lemma ParseCIDR_R2: "ParseCIDR ''10.1.0.0/16'' = Inr R2"
  by code_simp

lemma Contains_R1: "Contains (Some R1) [10, 1, 2, 3] = Inr True"
  by code_simp

lemma Contains_R2: "Contains (Some R2) [10, 1, 2, 3] = Inr True"
  by code_simp

lemma validIP_10_1_2_3: "validIP [10, 1, 2, 3]"
  by (simp add: validIP_def)

lemmas example_simps = IPNet_String_R1 IPNet_String_R2 Contains_R1 Contains_R2 validIP_10_1_2_3

text \<open>
  C7, as amended. On the host list, for every address and every state, \<^verbatim>\<open>Remove(a)\<close>
  called twice in a row ends as \<^verbatim>\<open>Remove(a)\<close> called once does. On the network list the
  same holds for every range and every state in which at most one entry has the string
  of the range: \<^verbatim>\<open>Remove\<close> takes out one entry in a call, so with two equal entries the
  second call takes out the second.
\<close>

theorem Remove_twice_is_Remove_once:
  "and_then (Basic_Remove a wl) (Basic_Remove a) = Basic_Remove a wl \<and>
   (length (filter (\<lambda>e. IPNet_String e = IPNet_String n) (allowlist nwl)) \<le> 1 \<longrightarrow>
      and_then (BasicNet_Remove n nwl) (BasicNet_Remove n) = BasicNet_Remove n nwl)"
  using Basic_Remove_twice [of a wl] BasicNet_Remove_twice [of n nwl] by blast

theorem Remove_twice_is_Remove_once_witness:
  "length (filter (\<lambda>e. IPNet_String e = IPNet_String (Some R2))
     (allowlist \<lparr>lock = Some (Mutex False), allowlist = [Some R1, Some R2]\<rparr>)) \<le> 1 \<and>
   BasicNet_Remove (Some R2) \<lparr>lock = Some (Mutex False), allowlist = [Some R1, Some R2]\<rparr> =
     Inr \<lparr>lock = Some (Mutex False), allowlist = [Some R1]\<rparr> \<and>
   and_then (BasicNet_Remove (Some R2) \<lparr>lock = Some (Mutex False), allowlist = [Some R1, Some R2]\<rparr>)
     (BasicNet_Remove (Some R2)) =
     Inr \<lparr>lock = Some (Mutex False), allowlist = [Some R1]\<rparr>"
proof -
  have once: "BasicNet_Remove (Some R2) \<lparr>lock = Some (Mutex False), allowlist = [Some R1, Some R2]\<rparr> =
      Inr \<lparr>lock = Some (Mutex False), allowlist = [Some R1]\<rparr>"
    by (simp add: BasicNet_Remove_def lock_simps example_simps)
  have one: "length (filter (\<lambda>e. IPNet_String e = IPNet_String (Some R2))
      (allowlist \<lparr>lock = Some (Mutex False), allowlist = [Some R1, Some R2]\<rparr>)) \<le> 1"
    by (simp add: example_simps)
  from Remove_twice_is_Remove_once [of _ _ "Some R2"
      "\<lparr>lock = Some (Mutex False), allowlist = [Some R1, Some R2]\<rparr>"] one once
  show ?thesis by simp
qed

text \<open>
  The claim as it is written fails on the network list: after \<open>R2\<close> was added twice, the
  first \<^verbatim>\<open>Remove(R2)\<close> leaves one entry, which still permits 10.1.2.3, and the second
  \<^verbatim>\<open>Remove(R2)\<close> takes that entry out.
\<close>

theorem Remove_twice_network_counterexample:
  "BasicNet_Add (Some R2) NewBasicNet = Inr \<lparr>lock = Some (Mutex False), allowlist = [Some R2]\<rparr> \<and>
   BasicNet_Add (Some R2) \<lparr>lock = Some (Mutex False), allowlist = [Some R2]\<rparr> =
     Inr \<lparr>lock = Some (Mutex False), allowlist = [Some R2, Some R2]\<rparr> \<and>
   BasicNet_Remove (Some R2) \<lparr>lock = Some (Mutex False), allowlist = [Some R2, Some R2]\<rparr> =
     Inr \<lparr>lock = Some (Mutex False), allowlist = [Some R2]\<rparr> \<and>
   BasicNet_Remove (Some R2) \<lparr>lock = Some (Mutex False), allowlist = [Some R2]\<rparr> =
     Inr \<lparr>lock = Some (Mutex False), allowlist = []\<rparr> \<and>
   BasicNet_Permitted [10, 1, 2, 3] \<lparr>lock = Some (Mutex False), allowlist = [Some R2]\<rparr> = Inr True \<and>
   BasicNet_Permitted [10, 1, 2, 3] \<lparr>lock = Some (Mutex False), allowlist = []\<rparr> = Inr False"
  by (simp add: NewBasicNet_def BasicNet_Add_def BasicNet_Remove_def BasicNet_Permitted_def
      lock_simps example_simps)

subsection \<open>Removal from the network list\<close>

lemma first_match_index:
  assumes "k < length es" and "P (es ! k)" and "\<forall>j<k. \<not> P (es ! j)"
  shows "length (takeWhile (\<lambda>e. \<not> P e) es) = k"
proof -
  have "takeWhile (\<lambda>e. \<not> P e) es = take k es"
    using assms by (intro takeWhile_eq_take_P_nth) auto
  then show ?thesis using assms(1) by simp
qed

text \<open>
  C4. \<^verbatim>\<open>BasicNet.Remove\<close> compares the strings of the ranges. On a list whose mutex is
  free, a range whose string no entry has leaves the list as it was and returns; when
  \<open>k\<close> is the first index of an entry with the string of the range, the entry at \<open>k\<close> is
  taken out and every other entry stays in its place. With \<open>R1 = 10.0.0.0/8\<close> and
  \<open>R2 = 10.1.0.0/16\<close> added to a new list, \<^verbatim>\<open>Permitted(10.1.2.3)\<close> is true after
  \<^verbatim>\<open>Remove(R2)\<close>, and after \<^verbatim>\<open>Remove(R1)\<close> the list holds the entry of \<open>R2\<close>.
\<close>

theorem Remove_exact_string_first_entry:
  assumes "lock wl = Some (Mutex False)"
  shows "(\<not> list_ex (\<lambda>e. IPNet_String e = IPNet_String (Some n)) (allowlist wl) \<longrightarrow>
            BasicNet_Remove (Some n) wl = Inr wl) \<and>
         (k < length (allowlist wl) \<and>
          IPNet_String (allowlist wl ! k) = IPNet_String (Some n) \<and>
          (\<forall>j<k. IPNet_String (allowlist wl ! j) \<noteq> IPNet_String (Some n)) \<longrightarrow>
            BasicNet_Remove (Some n) wl =
              Inr (wl\<lparr>allowlist := take k (allowlist wl) @ drop (Suc k) (allowlist wl)\<rparr>)) \<and>
         ParseCIDR ''10.0.0.0/8'' = Inr R1 \<and>
         ParseCIDR ''10.1.0.0/16'' = Inr R2 \<and>
         and_then (and_then (and_then (BasicNet_Add (Some R1) NewBasicNet) (BasicNet_Add (Some R2)))
           (BasicNet_Remove (Some R2))) (BasicNet_Permitted [10, 1, 2, 3]) = Inr True \<and>
         and_then (and_then (BasicNet_Add (Some R1) NewBasicNet) (BasicNet_Add (Some R2)))
           (BasicNet_Remove (Some R1)) = Inr \<lparr>lock = Some (Mutex False), allowlist = [Some R2]\<rparr>"
proof (intro conjI impI)
  assume "\<not> list_ex (\<lambda>e. IPNet_String e = IPNet_String (Some n)) (allowlist wl)"
  then show "BasicNet_Remove (Some n) wl = Inr wl"
    using assms by (simp add: BasicNet_Remove_free)
next
  assume k: "k < length (allowlist wl) \<and>
      IPNet_String (allowlist wl ! k) = IPNet_String (Some n) \<and>
      (\<forall>j<k. IPNet_String (allowlist wl ! j) \<noteq> IPNet_String (Some n))"
  then have len: "length (takeWhile (\<lambda>e. IPNet_String e \<noteq> IPNet_String (Some n)) (allowlist wl)) = k"
    using first_match_index [of k "allowlist wl" "\<lambda>e. IPNet_String e = IPNet_String (Some n)"]
    by simp
  have "list_ex (\<lambda>e. IPNet_String e = IPNet_String (Some n)) (allowlist wl)"
    using k nth_mem [of k "allowlist wl"] by (auto simp: list_ex_iff)
  then show "BasicNet_Remove (Some n) wl =
      Inr (wl\<lparr>allowlist := take k (allowlist wl) @ drop (Suc k) (allowlist wl)\<rparr>)"
    using assms len by (simp add: BasicNet_Remove_free)
next
  show "ParseCIDR ''10.0.0.0/8'' = Inr R1"
    by (rule ParseCIDR_R1)
next
  show "ParseCIDR ''10.1.0.0/16'' = Inr R2"
    by (rule ParseCIDR_R2)
next
  show "and_then (and_then (and_then (BasicNet_Add (Some R1) NewBasicNet) (BasicNet_Add (Some R2)))
      (BasicNet_Remove (Some R2))) (BasicNet_Permitted [10, 1, 2, 3]) = Inr True"
    by (simp add: NewBasicNet_def BasicNet_Add_def BasicNet_Remove_def BasicNet_Permitted_def
        lock_simps example_simps)
next
  show "and_then (and_then (BasicNet_Add (Some R1) NewBasicNet) (BasicNet_Add (Some R2)))
      (BasicNet_Remove (Some R1)) = Inr \<lparr>lock = Some (Mutex False), allowlist = [Some R2]\<rparr>"
    by (simp add: NewBasicNet_def BasicNet_Add_def BasicNet_Remove_def lock_simps example_simps)
qed

theorem Remove_exact_string_first_entry_witness:
  "lock \<lparr>lock = Some (Mutex False), allowlist = [Some R1, Some R2]\<rparr> = Some (Mutex False) \<and>
   (1::nat) < length (allowlist \<lparr>lock = Some (Mutex False), allowlist = [Some R1, Some R2]\<rparr>) \<and>
   IPNet_String (Some R1) \<noteq> IPNet_String (Some R2) \<and>
   BasicNet_Remove (Some R2) \<lparr>lock = Some (Mutex False), allowlist = [Some R1, Some R2]\<rparr> =
     Inr \<lparr>lock = Some (Mutex False), allowlist = [Some R1]\<rparr> \<and>
   \<not> list_ex (\<lambda>e. IPNet_String e = IPNet_String (Some R2)) [Some R1] \<and>
   BasicNet_Remove (Some R2) \<lparr>lock = Some (Mutex False), allowlist = [Some R1]\<rparr> =
     Inr \<lparr>lock = Some (Mutex False), allowlist = [Some R1]\<rparr>"
proof -
  have ne: "IPNet_String (Some R1) \<noteq> IPNet_String (Some R2)"
    by (simp add: example_simps)
  from Remove_exact_string_first_entry
      [of "\<lparr>lock = Some (Mutex False), allowlist = [Some R1, Some R2]\<rparr>" R2 1]
    Remove_exact_string_first_entry
      [of "\<lparr>lock = Some (Mutex False), allowlist = [Some R1]\<rparr>" R2 0] ne
  show ?thesis by simp
qed

subsection \<open>Deserialisation of the compact form\<close>

lemma Permitted_nil_map:
  "lock wl = Some (Mutex False) \<Longrightarrow> allowlist wl = None \<Longrightarrow> Basic_Permitted a wl = Inr False"
  by (simp add: Basic_Permitted_def map_index_def lock_simps)

lemma Permitted_empty_map:
  "lock wl = Some (Mutex False) \<Longrightarrow> allowlist wl = Some Map.empty \<Longrightarrow>
   Basic_Permitted a wl = Inr False"
  by (simp add: Basic_Permitted_def map_index_def lock_simps)

text \<open>
  What \<^verbatim>\<open>Basic.UnmarshalJSON\<close> returns on an input of two bytes or more that starts and
  ends with a quote, when the mutex is nil or free.
\<close>

lemma Basic_UnmarshalJSON_quoted:
  assumes "hd inp = CHR 0x22" and "last inp = CHR 0x22" and "2 \<le> length inp"
    and "lock wl \<noteq> Some (Mutex True)"
  shows "Basic_UnmarshalJSON inp wl =
     (case UnmarshalJSON_hosts
             (Split (TrimSpace (take (length inp - 2) (drop 1 inp))) (CHR '','')) Map.empty of
        Inl addr \<Rightarrow>
          Inr (Some (errors_New (''allowlist: invalid IP address '' @ addr)),
               wl\<lparr>lock := Some (Mutex False), allowlist := None\<rparr>)
      | Inr m \<Rightarrow> Inr (None, wl\<lparr>lock := Some (Mutex False), allowlist := Some m\<rparr>))"
proof -
  from assms(3) have ne: "inp \<noteq> []" by auto
  from assms(4) have "Lock (if lock wl = None then Some (Mutex False) else lock wl) =
      Inr (Some (Mutex True))"
    by (cases "lock wl" rule: Mutex_cases) (simp_all add: lock_simps)
  with assms(1,2,3) ne show ?thesis
    by (simp add: Basic_UnmarshalJSON_def lock_simps Let_def split: sum.splits)
qed

lemma Basic_UnmarshalJSON_Inr:
  assumes "inp \<noteq> []" and "hd inp = CHR 0x22" and "last inp = CHR 0x22"
    and "Basic_UnmarshalJSON inp wl = Inr r"
  shows "2 \<le> length inp \<and> lock wl \<noteq> Some (Mutex True)"
proof -
  have "lock wl \<noteq> Some (Mutex True)"
  proof
    assume "lock wl = Some (Mutex True)"
    with assms show False
      by (simp add: Basic_UnmarshalJSON_def lock_simps)
  qed
  then have l: "Lock (if lock wl = None then Some (Mutex False) else lock wl) =
      Inr (Some (Mutex True))"
    by (cases "lock wl" rule: Mutex_cases) (simp_all add: lock_simps)
  have "\<not> length inp < 2"
  proof
    assume "length inp < 2"
    with assms l show False
      by (simp add: Basic_UnmarshalJSON_def lock_simps)
  qed
  with \<open>lock wl \<noteq> Some (Mutex True)\<close> show ?thesis by simp
qed

text \<open>
  C9. When \<^verbatim>\<open>Basic.UnmarshalJSON\<close> is given an input that starts and ends with a quote
  and returns an error, the error is the one for an address that \<^verbatim>\<open>net.ParseIP\<close>
  refuses, the map of the list is nil whatever it held before, and \<^verbatim>\<open>Permitted(a)\<close>
  returns false for every address \<open>a\<close>.
\<close>

theorem failed_UnmarshalJSON_empties_host_list:
  assumes "inp \<noteq> []" and "hd inp = CHR 0x22" and "last inp = CHR 0x22"
    and "Basic_UnmarshalJSON inp wl = Inr (Some e, wl')"
  shows "allowlist wl' = None \<and>
         (\<forall>a. Basic_Permitted a wl' = Inr False) \<and>
         (\<exists>addr. ParseIP addr = [] \<and> e = errors_New (''allowlist: invalid IP address '' @ addr))"
proof -
  from Basic_UnmarshalJSON_Inr [OF assms]
  have len: "2 \<le> length inp" and lk: "lock wl \<noteq> Some (Mutex True)"
    by simp_all
  let ?nets = "Split (TrimSpace (take (length inp - 2) (drop 1 inp))) (CHR '','')"
  have parse: "UnmarshalJSON_hosts ns m = Inl addr \<Longrightarrow> ParseIP addr = []" for ns m addr
    by (induction ns m rule: UnmarshalJSON_hosts.induct) (auto simp: Let_def split: if_splits)
  show ?thesis
  proof (cases "UnmarshalJSON_hosts ?nets Map.empty")
    case (Inr m)
    with Basic_UnmarshalJSON_quoted [OF assms(2,3) len lk] assms(4) show ?thesis
      by simp
  next
    case (Inl addr)
    with Basic_UnmarshalJSON_quoted [OF assms(2,3) len lk] assms(4)
    have e: "e = errors_New (''allowlist: invalid IP address '' @ addr)"
      and wl': "wl' = wl\<lparr>lock := Some (Mutex False), allowlist := None\<rparr>"
      by simp_all
    from wl' have "Basic_Permitted a wl' = Inr False" for a
      by (simp add: Permitted_nil_map)
    with e wl' parse [OF Inl] show ?thesis by auto
  qed
qed

lemma TrimSpace_x: "TrimSpace ''x'' = ''x''"
  by code_simp

lemma Split_x: "Split ''x'' (CHR '','') = [''x'']"
  by code_simp

lemma ParseIP_x: "ParseIP ''x'' = []"
  by code_simp

lemma UnmarshalJSON_x:
  "lock wl \<noteq> Some (Mutex True) \<Longrightarrow>
   Basic_UnmarshalJSON [CHR 0x22, CHR ''x'', CHR 0x22] wl =
     Inr (Some (errors_New ''allowlist: invalid IP address x''),
          wl\<lparr>lock := Some (Mutex False), allowlist := None\<rparr>)"
  by (simp add: Basic_UnmarshalJSON_quoted TrimSpace_x Split_x ParseIP_x)

theorem failed_UnmarshalJSON_empties_host_list_witness:
  "[CHR 0x22, CHR ''x'', CHR 0x22] \<noteq> [] \<and>
   hd [CHR 0x22, CHR ''x'', CHR 0x22] = CHR 0x22 \<and>
   last [CHR 0x22, CHR ''x'', CHR 0x22] = CHR 0x22 \<and>
   Basic_Permitted [127, 0, 0, 1]
     \<lparr>lock = Some (Mutex False), allowlist = Some [''127.0.0.1'' \<mapsto> True]\<rparr> = Inr True \<and>
   Basic_UnmarshalJSON [CHR 0x22, CHR ''x'', CHR 0x22]
     \<lparr>lock = Some (Mutex False), allowlist = Some [''127.0.0.1'' \<mapsto> True]\<rparr> =
     Inr (Some (errors_New ''allowlist: invalid IP address x''),
          \<lparr>lock = Some (Mutex False), allowlist = None\<rparr>) \<and>
   Basic_Permitted [127, 0, 0, 1] \<lparr>lock = Some (Mutex False), allowlist = None\<rparr> = Inr False"
proof -
  let ?wl = "\<lparr>lock = Some (Mutex False), allowlist = Some [''127.0.0.1'' \<mapsto> True]\<rparr>"
  have before: "Basic_Permitted [127, 0, 0, 1] ?wl = Inr True"
    by (simp add: Basic_Permitted_free validIP_127 IP_String_127 map_index_def)
  have load: "Basic_UnmarshalJSON [CHR 0x22, CHR ''x'', CHR 0x22] ?wl =
      Inr (Some (errors_New ''allowlist: invalid IP address x''),
           \<lparr>lock = Some (Mutex False), allowlist = None\<rparr>)"
    by (simp add: UnmarshalJSON_x)
  from failed_UnmarshalJSON_empties_host_list [OF _ _ _ load] before load
  show ?thesis by simp
qed

lemma BasicNet_UnmarshalJSON_quoted:
  assumes "hd inp = CHR 0x22" and "last inp = CHR 0x22" and "2 \<le> length inp"
    and "lock wl \<noteq> Some (Mutex True)"
  shows "BasicNet_UnmarshalJSON inp wl =
     (let nets = Split (TrimSpace (take (length inp - 2) (drop 1 inp))) (CHR '','') in
      case UnmarshalJSON_nets nets (replicate (length nets) None) 0 of
        Inl err \<Rightarrow> Inr (Some err, wl\<lparr>lock := Some (Mutex False), allowlist := []\<rparr>)
      | Inr al \<Rightarrow> Inr (None, wl\<lparr>lock := Some (Mutex False), allowlist := al\<rparr>))"
proof -
  from assms(3) have ne: "inp \<noteq> []" by auto
  from assms(4) have "Lock (if lock wl = None then Some (Mutex False) else lock wl) =
      Inr (Some (Mutex True))"
    by (cases "lock wl" rule: Mutex_cases) (simp_all add: lock_simps)
  with assms(1,2,3) ne show ?thesis
    by (simp add: BasicNet_UnmarshalJSON_def lock_simps Let_def split: sum.splits)
qed

text \<open>
  An input that is not empty and does not both start and end with a quote: both
  \<^verbatim>\<open>UnmarshalJSON\<close> methods return the error for an invalid allowlist and leave the
  list, its mutex included, as it was.
\<close>

lemma UnmarshalJSON_not_quoted:
  assumes "inp \<noteq> []" and "\<not> (hd inp = CHR 0x22 \<and> last inp = CHR 0x22)"
  shows "Basic_UnmarshalJSON inp wl = Inr (Some (errors_New ''allowlist: invalid allowlist''), wl)"
    and "BasicNet_UnmarshalJSON inp nwl = Inr (Some (errors_New ''allowlist: invalid allowlist''), nwl)"
  using assms by (auto simp: Basic_UnmarshalJSON_def BasicNet_UnmarshalJSON_def)

lemma UnmarshalJSON_abc:
  "Basic_UnmarshalJSON ''abc'' wl = Inr (Some (errors_New ''allowlist: invalid allowlist''), wl)"
  "BasicNet_UnmarshalJSON ''abc'' nwl = Inr (Some (errors_New ''allowlist: invalid allowlist''), nwl)"
  by (simp_all add: UnmarshalJSON_not_quoted)

text \<open>
  C6. The claim counts the empty input among the inputs that are not delimited by
  quotes. On the empty input both \<^verbatim>\<open>UnmarshalJSON\<close> methods stop at \<^verbatim>\<open>in[0]\<close>, whatever
  the list: the index is out of range, and no error is returned.
\<close>

theorem UnmarshalJSON_of_empty_input_panics:
  "Basic_UnmarshalJSON [] wl = Inl index_out_of_range \<and>
   BasicNet_UnmarshalJSON [] nwl = Inl index_out_of_range"
  by (simp add: Basic_UnmarshalJSON_def BasicNet_UnmarshalJSON_def)

lemma TrimSpace_empty: "TrimSpace [] = []"
  by code_simp

text \<open>
  The compact form of the empty list, two quotes, on the host list: the new map is
  empty, and \<^verbatim>\<open>Permitted\<close> returns false for every address.
\<close>

lemma Basic_UnmarshalJSON_empty_list:
  assumes "lock wl \<noteq> Some (Mutex True)"
  shows "Basic_UnmarshalJSON [CHR 0x22, CHR 0x22] wl =
           Inr (None, wl\<lparr>lock := Some (Mutex False), allowlist := Some Map.empty\<rparr>)"
    and "Basic_Permitted a (wl\<lparr>lock := Some (Mutex False), allowlist := Some Map.empty\<rparr>) = Inr False"
  using assms by (simp_all add: Basic_UnmarshalJSON_quoted TrimSpace_empty Permitted_empty_map)

text \<open>
  On the network list the same input leaves a slice of one nil entry, and
  \<^verbatim>\<open>Permitted\<close> of a valid address stops at that entry.
\<close>

lemma BasicNet_UnmarshalJSON_empty_list:
  assumes "lock wl \<noteq> Some (Mutex True)"
  shows "BasicNet_UnmarshalJSON [CHR 0x22, CHR 0x22] wl =
           Inr (None, wl\<lparr>lock := Some (Mutex False), allowlist := [None]\<rparr>)"
  using assms by (simp add: BasicNet_UnmarshalJSON_quoted TrimSpace_empty)

lemma BasicNet_Permitted_nil_entry:
  assumes "validIP a"
  shows "BasicNet_Permitted a (wl\<lparr>lock := Some (Mutex False), allowlist := [None]\<rparr>) =
           Inl nil_pointer_dereference"
  using assms by (simp add: BasicNet_Permitted_def Contains_def lock_simps)

text \<open>
  C5. The claim holds on the host list (\<open>Basic_UnmarshalJSON_empty_list\<close>). On the
  network list \<^verbatim>\<open>UnmarshalJSON\<close> of the two quotes returns no error, but the list it
  leaves is not empty: it holds one nil entry, and \<^verbatim>\<open>Permitted(127.0.0.1)\<close> on it
  dereferences the nil pointer.
\<close>

theorem BasicNet_UnmarshalJSON_of_empty_list_leaves_nil_entry:
  "BasicNet_UnmarshalJSON [CHR 0x22, CHR 0x22] NewBasicNet =
     Inr (None, \<lparr>lock = Some (Mutex False), allowlist = [None]\<rparr>) \<and>
   BasicNet_Permitted [127, 0, 0, 1] \<lparr>lock = Some (Mutex False), allowlist = [None]\<rparr> =
     Inl nil_pointer_dereference"
proof -
  have "lock NewBasicNet \<noteq> Some (Mutex True)"
    by (simp add: NewBasicNet_def)
  from BasicNet_UnmarshalJSON_empty_list [OF this]
    BasicNet_Permitted_nil_entry [OF validIP_127, of NewBasicNet]
  show ?thesis by (simp add: NewBasicNet_def)
qed

subsection \<open>The dump form\<close>

lemma ParseIP_empty: "ParseIP [] = []"
  by (simp add: ParseIP_def)

text \<open>
  C1. The claim includes the list that no \<^verbatim>\<open>Add\<close> was called on. Its map has no key, so
  \<^verbatim>\<open>DumpBasic\<close> returns the empty byte sequence; \<^verbatim>\<open>LoadBasic\<close> splits that into one
  empty line, which \<^verbatim>\<open>net.ParseIP\<close> refuses, and returns an error and no list.
\<close>

theorem LoadBasic_refuses_dump_of_empty_list:
  "range_order (allowlist NewBasic) [] \<and>
   DumpBasic [] NewBasic = Inr [] \<and>
   LoadBasic [] = Inr (Inl (errors_New ''allowlist: invalid address''))"
  by (simp add: range_order_def NewBasic_def DumpBasic_def sort_Strings_def LoadBasic_def
      ParseIP_empty lock_simps)

subsection \<open>The mutex\<close>

text \<open>
  A call made while the mutex is held waits before it reads or writes the collection.
  This holds for every method that touches the collection after its checks, but one.
\<close>

lemma held_mutex_blocks:
  assumes "lock wl = Some (Mutex True)" and "lock nwl = Some (Mutex True)"
  shows "validIP a \<Longrightarrow> Basic_Permitted a wl = Inl blocked"
    and "validIP a \<Longrightarrow> Basic_Add a wl = Inl blocked"
    and "validIP a \<Longrightarrow> Basic_Remove a wl = Inl blocked"
    and "Basic_MarshalJSON ks wl = Inl blocked"
    and "DumpBasic ks wl = Inl blocked"
    and "inp \<noteq> [] \<Longrightarrow> hd inp = CHR 0x22 \<Longrightarrow> last inp = CHR 0x22 \<Longrightarrow>
         Basic_UnmarshalJSON inp wl = Inl blocked"
    and "validIP a \<Longrightarrow> BasicNet_Permitted a nwl = Inl blocked"
    and "BasicNet_Add (Some n) nwl = Inl blocked"
    and "BasicNet_Remove (Some n) nwl = Inl blocked"
    and "inp \<noteq> [] \<Longrightarrow> hd inp = CHR 0x22 \<Longrightarrow> last inp = CHR 0x22 \<Longrightarrow>
         BasicNet_UnmarshalJSON inp nwl = Inl blocked"
  using assms
  by (simp_all add: Basic_Permitted_def Basic_Add_def Basic_Remove_def Basic_MarshalJSON_def
      DumpBasic_def Basic_UnmarshalJSON_def BasicNet_Permitted_def BasicNet_Add_def
      BasicNet_Remove_def BasicNet_UnmarshalJSON_def lock_simps)

lemma BasicNet_MarshalJSON_any_mutex:
  "BasicNet_MarshalJSON (wl\<lparr>lock := m\<rparr>) = BasicNet_MarshalJSON wl"
  by (simp add: BasicNet_MarshalJSON_def)

text \<open>
  C10. \<^verbatim>\<open>BasicNet.MarshalJSON\<close> reads the collection without taking the mutex: called
  while the mutex is held, it returns the serialisation of the entries, where
  \<^verbatim>\<open>Basic.MarshalJSON\<close> waits.
\<close>

theorem BasicNet_MarshalJSON_ignores_held_mutex:
  "BasicNet_MarshalJSON \<lparr>lock = Some (Mutex True), allowlist = [Some R1]\<rparr> =
     Inr (CHR 0x22 # ''10.0.0.0/8'' @ [CHR 0x22], None) \<and>
   Basic_MarshalJSON [''10.0.0.1'']
     \<lparr>lock = Some (Mutex True), allowlist = Some [''10.0.0.1'' \<mapsto> True]\<rparr> = Inl blocked"
  by (simp add: BasicNet_MarshalJSON_def Basic_MarshalJSON_def IPNet_String_R1 lock_simps)

subsection \<open>The handlers\<close>

lemma NewHandler_Inr:
  "NewHandler a d acl = Inr h \<Longrightarrow>
   \<exists>x p. a = Some x \<and> acl = Some p \<and> h = \<lparr>allowHandler = Some x, denyHandler = d, h_allowlist = Some p\<rparr>"
  by (cases a; cases acl) (auto simp: NewHandler_def)

lemma NewHandlerFunc_Inr:
  "NewHandlerFunc a d acl = Inr h \<Longrightarrow>
   \<exists>x p. a = Some x \<and> acl = Some p \<and> h = \<lparr>allow = Some x, deny = d, hf_allowlist = Some p\<rparr>"
  by (cases a; cases acl) (auto simp: NewHandlerFunc_def)

text \<open>The four things a handler of \<^verbatim>\<open>NewHandler\<close> can do with a request, and when.\<close>

lemma Handler_ServeHTTP_cases:
  "Handler_ServeHTTP S \<lparr>allowHandler = Some x, denyHandler = d, h_allowlist = Some p\<rparr> req =
     (case HTTPRequestLookup S req of
        Inl err \<Rightarrow>
          Inr [log_Printf ''failed to lookup request address: %v'' err,
               http_Error ''Internal Server Error'' 500]
      | Inr ip \<Rightarrow>
          if p ip then Inr [call_allow x]
          else (case d of None \<Rightarrow> Inr [http_Error ''Unauthorized'' 401] | Some y \<Rightarrow> Inr [call_deny y]))"
  by (simp add: Handler_ServeHTTP_def split: sum.splits option.splits)

lemma HandlerFunc_ServeHTTP_cases:
  "HandlerFunc_ServeHTTP S \<lparr>allow = Some x, deny = d, hf_allowlist = Some p\<rparr> req =
     (case HTTPRequestLookup S req of
        Inl err \<Rightarrow>
          Inr [log_Printf ''failed to lookup request address: %v'' err,
               http_Error ''Internal Server Error'' 500]
      | Inr ip \<Rightarrow>
          if p ip then Inr [call_allow x]
          else (case d of None \<Rightarrow> Inr [http_Error ''Unauthorized'' 401] | Some y \<Rightarrow> Inr [call_deny y]))"
  by (simp add: HandlerFunc_ServeHTTP_def split: sum.splits option.splits)

text \<open>
  C8. For a handler that \<^verbatim>\<open>NewHandler\<close> or \<^verbatim>\<open>NewHandlerFunc\<close> returned, with the
  permitted delegate \<open>x\<close>, the membership test \<open>p\<close> and the optional denied delegate \<open>d\<close>,
  and for every request: when the lookup of the address fails, \<^verbatim>\<open>ServeHTTP\<close> writes the
  log line and the response 500 and calls no delegate; when the lookup gives an address
  that \<open>p\<close> permits, it calls \<open>x\<close> and does nothing else; when \<open>p\<close> refuses the address, it
  calls the denied delegate if there is one, and else writes the response 401. Each
  request has exactly one of the four outcomes.
\<close>

theorem ServeHTTP_one_of_four_outcomes:
  assumes "NewHandler a d acl = Inr h" and "NewHandlerFunc a d acl = Inr hf"
  shows "\<exists>x p. a = Some x \<and> acl = Some p \<and>
     HandlerFunc_ServeHTTP S hf req = Handler_ServeHTTP S h req \<and>
     (\<forall>err. HTTPRequestLookup S req = Inl err \<longrightarrow>
        Handler_ServeHTTP S h req =
          Inr [log_Printf ''failed to lookup request address: %v'' err,
               http_Error ''Internal Server Error'' 500]) \<and>
     (\<forall>ip. HTTPRequestLookup S req = Inr ip \<and> p ip \<longrightarrow>
        Handler_ServeHTTP S h req = Inr [call_allow x]) \<and>
     (\<forall>ip y. HTTPRequestLookup S req = Inr ip \<and> \<not> p ip \<and> d = Some y \<longrightarrow>
        Handler_ServeHTTP S h req = Inr [call_deny y]) \<and>
     (\<forall>ip. HTTPRequestLookup S req = Inr ip \<and> \<not> p ip \<and> d = None \<longrightarrow>
        Handler_ServeHTTP S h req = Inr [http_Error ''Unauthorized'' 401]) \<and>
     length (filter (\<lambda>outcome. outcome)
       [\<exists>err. Handler_ServeHTTP S h req =
          Inr [log_Printf ''failed to lookup request address: %v'' err,
               http_Error ''Internal Server Error'' 500],
        Handler_ServeHTTP S h req = Inr [call_allow x],
        \<exists>y. Handler_ServeHTTP S h req = Inr [call_deny y],
        Handler_ServeHTTP S h req = Inr [http_Error ''Unauthorized'' 401]]) = 1"
proof -
  from NewHandler_Inr [OF assms(1)] obtain x p
    where a: "a = Some x" and acl: "acl = Some p"
      and h: "h = \<lparr>allowHandler = Some x, denyHandler = d, h_allowlist = Some p\<rparr>"
    by blast
  from NewHandlerFunc_Inr [OF assms(2)] a acl
  have hf: "hf = \<lparr>allow = Some x, deny = d, hf_allowlist = Some p\<rparr>"
    by auto
  have same: "HandlerFunc_ServeHTTP S hf req = Handler_ServeHTTP S h req"
    unfolding h hf Handler_ServeHTTP_cases HandlerFunc_ServeHTTP_cases ..
  have four: "(\<forall>err. HTTPRequestLookup S req = Inl err \<longrightarrow>
        Handler_ServeHTTP S h req =
          Inr [log_Printf ''failed to lookup request address: %v'' err,
               http_Error ''Internal Server Error'' 500]) \<and>
     (\<forall>ip. HTTPRequestLookup S req = Inr ip \<and> p ip \<longrightarrow>
        Handler_ServeHTTP S h req = Inr [call_allow x]) \<and>
     (\<forall>ip y. HTTPRequestLookup S req = Inr ip \<and> \<not> p ip \<and> d = Some y \<longrightarrow>
        Handler_ServeHTTP S h req = Inr [call_deny y]) \<and>
     (\<forall>ip. HTTPRequestLookup S req = Inr ip \<and> \<not> p ip \<and> d = None \<longrightarrow>
        Handler_ServeHTTP S h req = Inr [http_Error ''Unauthorized'' 401])"
    unfolding h Handler_ServeHTTP_cases by simp
  have one: "length (filter (\<lambda>outcome. outcome)
       [\<exists>err. Handler_ServeHTTP S h req =
          Inr [log_Printf ''failed to lookup request address: %v'' err,
               http_Error ''Internal Server Error'' 500],
        Handler_ServeHTTP S h req = Inr [call_allow x],
        \<exists>y. Handler_ServeHTTP S h req = Inr [call_deny y],
        Handler_ServeHTTP S h req = Inr [http_Error ''Unauthorized'' 401]]) = 1"
    unfolding h Handler_ServeHTTP_cases
    by (cases "HTTPRequestLookup S req"; cases d) simp_all
  from a acl same four one show ?thesis by blast
qed


lemma ParseIP_127: "ParseIP ''127.0.0.1'' = IPv4 127 0 0 1"
  by code_simp

lemma ParseIP_8888: "ParseIP ''8.8.8.8'' = IPv4 8 8 8 8"
  by code_simp

lemma IP_String_IPv4_127: "IP_String (IPv4 127 0 0 1) = ''127.0.0.1''"
  by code_simp

lemma IP_String_IPv4_8888: "IP_String (IPv4 8 8 8 8) = ''8.8.8.8''"
  by code_simp

lemma validIP_IPv4: "validIP (IPv4 a b c d)"
  by (simp add: validIP_def IPv4_def v4InV6Prefix_def)

theorem ServeHTTP_one_of_four_outcomes_witness:
  "NewHandler (Some (1::nat)) None
     (Some (\<lambda>ip. Basic_Permitted ip
        \<lparr>lock = Some (Mutex False), allowlist = Some [''127.0.0.1'' \<mapsto> True]\<rparr> = Inr True)) =
     Inr \<lparr>allowHandler = Some 1, denyHandler = None,
          h_allowlist = Some (\<lambda>ip. Basic_Permitted ip
            \<lparr>lock = Some (Mutex False), allowlist = Some [''127.0.0.1'' \<mapsto> True]\<rparr> = Inr True)\<rparr> \<and>
   Handler_ServeHTTP (\<lambda>hostport. Inr (''127.0.0.1'', ''8080''))
     \<lparr>allowHandler = Some (1::nat), denyHandler = None,
      h_allowlist = Some (\<lambda>ip. Basic_Permitted ip
        \<lparr>lock = Some (Mutex False), allowlist = Some [''127.0.0.1'' \<mapsto> True]\<rparr> = Inr True)\<rparr>
     (Some \<lparr>RemoteAddr = ''127.0.0.1:8080''\<rparr>) = Inr [call_allow 1] \<and>
   Handler_ServeHTTP (\<lambda>hostport. Inr (''8.8.8.8'', ''53''))
     \<lparr>allowHandler = Some (1::nat), denyHandler = None,
      h_allowlist = Some (\<lambda>ip. Basic_Permitted ip
        \<lparr>lock = Some (Mutex False), allowlist = Some [''127.0.0.1'' \<mapsto> True]\<rparr> = Inr True)\<rparr>
     (Some \<lparr>RemoteAddr = ''8.8.8.8:53''\<rparr>) = Inr [http_Error ''Unauthorized'' 401] \<and>
   Handler_ServeHTTP (\<lambda>hostport. Inr (''8.8.8.8'', ''53''))
     \<lparr>allowHandler = Some (1::nat), denyHandler = Some 2,
      h_allowlist = Some (\<lambda>ip. Basic_Permitted ip
        \<lparr>lock = Some (Mutex False), allowlist = Some [''127.0.0.1'' \<mapsto> True]\<rparr> = Inr True)\<rparr>
     (Some \<lparr>RemoteAddr = ''8.8.8.8:53''\<rparr>) = Inr [call_deny 2] \<and>
   Handler_ServeHTTP (\<lambda>hostport. Inl (errors_New ''missing port in address''))
     \<lparr>allowHandler = Some (1::nat), denyHandler = None,
      h_allowlist = Some (\<lambda>ip. Basic_Permitted ip
        \<lparr>lock = Some (Mutex False), allowlist = Some [''127.0.0.1'' \<mapsto> True]\<rparr> = Inr True)\<rparr>
     (Some \<lparr>RemoteAddr = ''127.0.0.1''\<rparr>) =
     Inr [log_Printf ''failed to lookup request address: %v'' (errors_New ''missing port in address''),
          http_Error ''Internal Server Error'' 500]"
proof -
  let ?wl = "\<lparr>lock = Some (Mutex False), allowlist = Some [''127.0.0.1'' \<mapsto> True]\<rparr>"
  let ?p = "\<lambda>ip. Basic_Permitted ip ?wl = Inr True"
  let ?h = "\<lparr>allowHandler = Some (1::nat), denyHandler = None, h_allowlist = Some ?p\<rparr>"
  let ?hf = "\<lparr>allow = Some (1::nat), deny = None, hf_allowlist = Some ?p\<rparr>"
  let ?h2 = "\<lparr>allowHandler = Some (1::nat), denyHandler = Some (2::nat), h_allowlist = Some ?p\<rparr>"
  let ?hf2 = "\<lparr>allow = Some (1::nat), deny = Some (2::nat), hf_allowlist = Some ?p\<rparr>"
  have new: "NewHandler (Some 1) None (Some ?p) = Inr ?h"
      "NewHandlerFunc (Some 1) None (Some ?p) = Inr ?hf"
      "NewHandler (Some 1) (Some 2) (Some ?p) = Inr ?h2"
      "NewHandlerFunc (Some 1) (Some 2) (Some ?p) = Inr ?hf2"
    by (simp_all add: NewHandler_def NewHandlerFunc_def)
  have p: "?p (IPv4 127 0 0 1)" "\<not> ?p (IPv4 8 8 8 8)"
    by (simp_all add: Basic_Permitted_free validIP_IPv4 IP_String_IPv4_127 IP_String_IPv4_8888
        map_index_def)
  have lookup:
    "HTTPRequestLookup (\<lambda>hostport. Inr (''127.0.0.1'', ''8080'')) (Some \<lparr>RemoteAddr = ''127.0.0.1:8080''\<rparr>) =
       Inr (IPv4 127 0 0 1)"
    "HTTPRequestLookup (\<lambda>hostport. Inr (''8.8.8.8'', ''53'')) (Some \<lparr>RemoteAddr = ''8.8.8.8:53''\<rparr>) =
       Inr (IPv4 8 8 8 8)"
    "HTTPRequestLookup (\<lambda>hostport. Inl (errors_New ''missing port in address''))
       (Some \<lparr>RemoteAddr = ''127.0.0.1''\<rparr>) = Inl (errors_New ''missing port in address'')"
    by (simp_all add: HTTPRequestLookup_def ParseIP_127 ParseIP_8888)
  from ServeHTTP_one_of_four_outcomes [OF new(1,2),
      of "\<lambda>hostport. Inr (''127.0.0.1'', ''8080'')" "Some \<lparr>RemoteAddr = ''127.0.0.1:8080''\<rparr>"]
    lookup(1) p(1)
  have a: "Handler_ServeHTTP (\<lambda>hostport. Inr (''127.0.0.1'', ''8080'')) ?h
      (Some \<lparr>RemoteAddr = ''127.0.0.1:8080''\<rparr>) = Inr [call_allow 1]"
    by auto
  from ServeHTTP_one_of_four_outcomes [OF new(1,2),
      of "\<lambda>hostport. Inr (''8.8.8.8'', ''53'')" "Some \<lparr>RemoteAddr = ''8.8.8.8:53''\<rparr>"]
    lookup(2) p(2)
  have b: "Handler_ServeHTTP (\<lambda>hostport. Inr (''8.8.8.8'', ''53'')) ?h
      (Some \<lparr>RemoteAddr = ''8.8.8.8:53''\<rparr>) = Inr [http_Error ''Unauthorized'' 401]"
    by auto
  from ServeHTTP_one_of_four_outcomes [OF new(3,4),
      of "\<lambda>hostport. Inr (''8.8.8.8'', ''53'')" "Some \<lparr>RemoteAddr = ''8.8.8.8:53''\<rparr>"]
    lookup(2) p(2)
  have c: "Handler_ServeHTTP (\<lambda>hostport. Inr (''8.8.8.8'', ''53'')) ?h2
      (Some \<lparr>RemoteAddr = ''8.8.8.8:53''\<rparr>) = Inr [call_deny 2]"
    by auto
  from ServeHTTP_one_of_four_outcomes [OF new(1,2),
      of "\<lambda>hostport. Inl (errors_New ''missing port in address'')" "Some \<lparr>RemoteAddr = ''127.0.0.1''\<rparr>"]
    lookup(3)
  have d: "Handler_ServeHTTP (\<lambda>hostport. Inl (errors_New ''missing port in address'')) ?h
      (Some \<lparr>RemoteAddr = ''127.0.0.1''\<rparr>) =
      Inr [log_Printf ''failed to lookup request address: %v'' (errors_New ''missing port in address''),
           http_Error ''Internal Server Error'' 500]"
    by auto
  from new(1) a b c d show ?thesis by simp
qed

end
